theory Spec2Isabelle
  imports Complex_Main "HOL-Library.AList"
begin

section \<open>HuntOverlay: the engine beneath the overlay window\<close>

text \<open>
  A shallow embedding of the non-visual part of \<^verbatim>\<open>HuntOverlay.py\<close>: the coordinate
  transform, the data-format adapter, the point cache, the identity of a point, the hidden
  sets, the hover hit test, the per-tick input handling and the loading of the configuration.

  Conventions of the embedding.
  \<^item> A Python \<^verbatim>\<open>float\<close> is a \<^typ>\<open>real\<close>: arithmetic is exact, and the non-finite values
    (\<^verbatim>\<open>nan\<close>, \<^verbatim>\<open>inf\<close>) and rounding errors of IEEE doubles are outside the model.
  \<^item> A value read by \<^verbatim>\<open>json.load\<close> is a \<open>json\<close>; a dict is the list of its items in
    insertion order, the keys distinct.
  \<^item> An exception is a value of type \<open>error\<close>; a function that may raise returns
    \<open>error + 'a\<close>.
  \<^item> Python integers are unbounded, and so are the coordinates of a \<^verbatim>\<open>QRect\<close> here.
  \<^item> Calls into Qt that only paint or show a window (\<^verbatim>\<open>update\<close>, \<^verbatim>\<open>show\<close>, \<^verbatim>\<open>hide\<close>,
    \<^verbatim>\<open>topmost\<close>) leave the engine state as it is and are not part of it. \<^verbatim>\<open>_save\<close>
    copies the state into \<^verbatim>\<open>self.data["settings"]\<close>, which is read at start-up only, and
    writes \<^verbatim>\<open>config.json\<close>, where \<^verbatim>\<open>save_json\<close> swallows every failure; the model keeps
    of it the one exception that can leave it, raised when it sorts the hidden sets.
\<close>

subsection \<open>Values\<close>

datatype json =
    JNull
  | JBool bool
  | JInt int
  | JFloat real
  | JStr string
  | JList "json list"
  | JDict "(string \<times> json) list"

datatype error =
    RuntimeError string
  | TypeError
  | KeyError
  | IndexError
  | ValueError
  | AttributeError

text \<open>
  What the model takes from outside the program, as parameters: the two parsers of the
  Python runtime that the program applies to strings of its input files, \<^verbatim>\<open>float(s)\<close> and
  \<^verbatim>\<open>int(s)\<close> (\<open>None\<close> is \<^verbatim>\<open>ValueError\<close>), and for each category the list
  \<^verbatim>\<open>q2rgb(type_specs[k]["default_fill"])\<close>, which \<^verbatim>\<open>_build_type_specs\<close> obtains from
  \<^verbatim>\<open>poiData.json\<close> through Qt's colour parser.
\<close>

record extern =
  float_of_str :: "string \<Rightarrow> real option"
  int_of_str :: "string \<Rightarrow> int option"
  default_fill :: "string \<Rightarrow> json"

text \<open>Truth value of a value, as \<^verbatim>\<open>if v:\<close>, \<^verbatim>\<open>not v\<close> and \<^verbatim>\<open>bool(v)\<close> take it.\<close>

fun truthy :: "json \<Rightarrow> bool" where
  "truthy JNull = False"
| "truthy (JBool b) = b"
| "truthy (JInt i) = (i \<noteq> 0)"
| "truthy (JFloat r) = (r \<noteq> 0)"
| "truthy (JStr s) = (s \<noteq> [])"
| "truthy (JList l) = (l \<noteq> [])"
| "truthy (JDict d) = (d \<noteq> [])"

text \<open>\<^verbatim>\<open>v == idx\<close> for an integer \<^verbatim>\<open>idx\<close>: numbers and booleans compare by value.\<close>

fun py_eq_int :: "json \<Rightarrow> int \<Rightarrow> bool" where
  "py_eq_int (JInt i) n = (i = n)"
| "py_eq_int (JFloat r) n = (r = real_of_int n)"
| "py_eq_int (JBool b) n = ((if b then 1 else 0) = n)"
| "py_eq_int _ n = False"

text \<open>\<^verbatim>\<open>for m in v\<close>: a dict yields its keys, a string its characters.\<close>

fun py_iter :: "json \<Rightarrow> error + json list" where
  "py_iter (JList l) = Inr l"
| "py_iter (JDict d) = Inr (map (\<lambda>kv. JStr (fst kv)) d)"
| "py_iter (JStr s) = Inr (map (\<lambda>c. JStr [c]) s)"
| "py_iter _ = Inl TypeError"

fun py_len :: "json \<Rightarrow> error + nat" where
  "py_len (JList l) = Inr (length l)"
| "py_len (JDict d) = Inr (length d)"
| "py_len (JStr s) = Inr (length s)"
| "py_len _ = Inl TypeError"

text \<open>\<^verbatim>\<open>c[i]\<close> for a natural number \<^verbatim>\<open>i\<close>; the keys of a dict read from JSON are strings.\<close>

fun py_index :: "json \<Rightarrow> nat \<Rightarrow> error + json" where
  "py_index (JList l) i = (if i < length l then Inr (l ! i) else Inl IndexError)"
| "py_index (JStr s) i = (if i < length s then Inr (JStr [s ! i]) else Inl IndexError)"
| "py_index (JDict d) i = Inl KeyError"
| "py_index _ i = Inl TypeError"

fun py_float :: "extern \<Rightarrow> json \<Rightarrow> error + real" where
  "py_float lib (JInt i) = Inr (real_of_int i)"
| "py_float lib (JFloat r) = Inr r"
| "py_float lib (JBool b) = Inr (if b then 1 else 0)"
| "py_float lib (JStr s) = (case float_of_str lib s of None \<Rightarrow> Inl ValueError | Some r \<Rightarrow> Inr r)"
| "py_float lib _ = Inl TypeError"

text \<open>\<^verbatim>\<open>int(r)\<close> truncates towards zero; \<^verbatim>\<open>round(r)\<close> rounds to nearest, a tie to even.\<close>

definition py_trunc :: "real \<Rightarrow> int" where
  "py_trunc r = (if 0 \<le> r then \<lfloor>r\<rfloor> else \<lceil>r\<rceil>)"

definition py_round :: "real \<Rightarrow> int" where
  "py_round r =
     (let f = \<lfloor>r\<rfloor>; d = r - real_of_int f
      in if d < 1 / 2 then f else if 1 / 2 < d then f + 1 else if even f then f else f + 1)"

text \<open>\<^verbatim>\<open>str(i)\<close> of an integer, as an f-string formats it.\<close>

definition digit_char :: "nat \<Rightarrow> char" where
  "digit_char d = ''0123456789'' ! d"

fun str_nat :: "nat \<Rightarrow> string" where
  "str_nat n = (if n < 10 then [digit_char n] else str_nat (n div 10) @ [digit_char (n mod 10)])"

definition str_int :: "int \<Rightarrow> string" where
  "str_int i = (if i < 0 then CHR ''-'' # str_nat (nat (- i)) else str_nat (nat i))"

text \<open>\<^verbatim>\<open>xs.index(x)\<close>: \<open>None\<close> is \<^verbatim>\<open>ValueError\<close>.\<close>

fun list_index :: "'a list \<Rightarrow> 'a \<Rightarrow> nat option" where
  "list_index [] a = None"
| "list_index (b # bs) a = (if b = a then Some 0 else map_option Suc (list_index bs a))"

text \<open>\<^verbatim>\<open>base.update(d)\<close> on dicts.\<close>

definition dict_update :: "(string \<times> json) list \<Rightarrow> (string \<times> json) list \<Rightarrow> (string \<times> json) list" where
  "dict_update base d = fold (\<lambda>kv b. AList.update (fst kv) (snd kv) b) d base"

definition MAPS :: "string list" where
  "MAPS = [''Stillwater Bayou'', ''DeSalle'', ''Lawson Delta'', ''Mammon's Gulch'']"

subsection \<open>CoordinateTransform\<close>

text \<open>\<^verbatim>\<open>rotate90cw_norm(x, y)\<close>: the four \<^verbatim>\<open>if\<close> statements run in the source's order.\<close>

definition rotate90cw_norm :: "real \<Rightarrow> real \<Rightarrow> real \<times> real" where
  "rotate90cw_norm x y =
     (let xr = y;
          yr = 4095 - x;
          u = xr / 4095;
          v = yr / 4095;
          u = (if u < 0 then 0 else u);
          u = (if u > 1 then 1 else u);
          v = (if v < 0 then 0 else v);
          v = (if v > 1 then 1 else v)
      in (u, v))"

subsection \<open>DataFormatAdapter\<close>

definition detect_data_format :: "json \<Rightarrow> string" where
  "detect_data_format game_data =
     (case game_data of
        JList (a # rest) \<Rightarrow>
          (case a of
             JDict d \<Rightarrow>
               if map_of d ''i'' \<noteq> None \<and> (map_of d ''r'' \<noteq> None \<or> map_of d ''a'' \<noteq> None)
               then ''indexed_r''
               else if map_of d ''n'' \<noteq> None then ''named'' else ''unknown''
           | _ \<Rightarrow> ''unknown'')
      | _ \<Rightarrow> ''unknown'')"

fun find_named :: "json list \<Rightarrow> string \<Rightarrow> json option" where
  "find_named [] map_name = None"
| "find_named (m # ms) map_name =
     (case m of
        JDict d \<Rightarrow> if map_of d ''n'' = Some (JStr map_name) then Some m else find_named ms map_name
      | _ \<Rightarrow> find_named ms map_name)"

fun find_indexed :: "json list \<Rightarrow> int \<Rightarrow> json option" where
  "find_indexed [] idx = None"
| "find_indexed (m # ms) idx =
     (case m of
        JDict d \<Rightarrow>
          (case map_of d ''i'' of
             Some i \<Rightarrow> if py_eq_int i idx then Some m else find_indexed ms idx
           | None \<Rightarrow> find_indexed ms idx)
      | _ \<Rightarrow> find_indexed ms idx)"

definition get_map_block :: "json \<Rightarrow> string \<Rightarrow> string \<Rightarrow> error + json option" where
  "get_map_block game_data fmt map_name =
     (if fmt = ''named'' then
        (case py_iter game_data of Inl e \<Rightarrow> Inl e | Inr ms \<Rightarrow> Inr (find_named ms map_name))
      else if fmt = ''indexed_r'' then
        (case list_index MAPS map_name of
           None \<Rightarrow> Inl ValueError
         | Some idx \<Rightarrow>
             (case py_iter game_data of
                Inl e \<Rightarrow> Inl e
              | Inr ms \<Rightarrow> Inr (find_indexed ms (int idx))))
      else Inr None)"

definition list_or_empty :: "json option \<Rightarrow> json list" where
  "list_or_empty v = (case v of Some (JList l) \<Rightarrow> l | _ \<Rightarrow> [])"

definition get_category_list :: "json option \<Rightarrow> string \<Rightarrow> string \<Rightarrow> json list" where
  "get_category_list map_block fmt category =
     (case map_block of
        Some (JDict b) \<Rightarrow>
          if fmt = ''named'' then list_or_empty (map_of b category)
          else if fmt = ''indexed_r'' then
            (case map_of b ''r'' of
               Some (JDict r) \<Rightarrow> list_or_empty (map_of r category)
             | _ \<Rightarrow> [])
          else []
      | _ \<Rightarrow> [])"

subsection \<open>PointCache\<close>

record point =
  pt_u :: real
  pt_v :: real
  pt_x :: real
  pt_y :: real
  pt_raw :: json
  pt_src :: string

definition type_order :: "string list" where
  "type_order =
     [''possible_xp'', ''spawns'', ''armories'', ''towers'', ''big_towers'', ''workbenches'',
      ''wild_targets'', ''beetles'', ''easter_eggs'', ''melee_weapons'', ''cash_registers'']"

text \<open>
  One round of the loop of \<^verbatim>\<open>build_for_category\<close>: \<open>Inr None\<close> is \<^verbatim>\<open>continue\<close>,
  \<open>Inr (Some p)\<close> is the point appended, and \<open>Inl e\<close> is an exception that leaves the loop:
  \<^verbatim>\<open>len(c)\<close> stands outside the \<^verbatim>\<open>try\<close>, the two conversions inside it.
\<close>

definition coords :: "extern \<Rightarrow> json \<Rightarrow> error + real \<times> real" where
  "coords lib c =
     (case py_index c 0 of
        Inl e \<Rightarrow> Inl e
      | Inr c0 \<Rightarrow>
          (case py_float lib c0 of
             Inl e \<Rightarrow> Inl e
           | Inr x \<Rightarrow>
               (case py_index c 1 of
                  Inl e \<Rightarrow> Inl e
                | Inr c1 \<Rightarrow>
                    (case py_float lib c1 of
                       Inl e \<Rightarrow> Inl e
                     | Inr y \<Rightarrow> Inr (x, y)))))"

definition build_item :: "extern \<Rightarrow> string \<Rightarrow> json \<Rightarrow> error + point option" where
  "build_item lib cat it =
     (case it of
        JDict d \<Rightarrow>
          (let c = (case map_of d ''c'' of None \<Rightarrow> JNull | Some c \<Rightarrow> c) in
           if \<not> truthy c then Inr None
           else
             (case py_len c of
                Inl e \<Rightarrow> Inl e
              | Inr n \<Rightarrow>
                  if n < 2 then Inr None
                  else
                    (case coords lib c of
                       Inl e \<Rightarrow> Inr None
                     | Inr (x, y) \<Rightarrow>
                         (let (u, v) = rotate90cw_norm x y in
                          Inr (Some \<lparr>pt_u = u, pt_v = v, pt_x = x, pt_y = y,
                                     pt_raw = it, pt_src = cat\<rparr>)))))
      | _ \<Rightarrow> Inr None)"

fun build_items :: "extern \<Rightarrow> string \<Rightarrow> json list \<Rightarrow> point list \<Rightarrow> error + point list" where
  "build_items lib cat [] pts = Inr pts"
| "build_items lib cat (it # items) pts =
     (case build_item lib cat it of
        Inl e \<Rightarrow> Inl e
      | Inr None \<Rightarrow> build_items lib cat items pts
      | Inr (Some p) \<Rightarrow> build_items lib cat items (pts @ [p]))"

definition build_for_category :: "extern \<Rightarrow> json option \<Rightarrow> string \<Rightarrow> string \<Rightarrow> error + point list" where
  "build_for_category lib block fmt cat = build_items lib cat (get_category_list block fmt cat) []"

text \<open>The loop over \<^verbatim>\<open>type_order\<close> that fills \<^verbatim>\<open>out\<close>, skipping \<^verbatim>\<open>possible_xp\<close>.\<close>

fun build_categories ::
  "extern \<Rightarrow> json option \<Rightarrow> string \<Rightarrow> string list \<Rightarrow> (string \<rightharpoonup> point list) \<Rightarrow>
   error + (string \<rightharpoonup> point list)" where
  "build_categories lib block fmt [] out = Inr out"
| "build_categories lib block fmt (cat # cats) out =
     (if cat = ''possible_xp'' then build_categories lib block fmt cats out
      else
        (case build_for_category lib block fmt cat of
           Inl e \<Rightarrow> Inl e
         | Inr pts \<Rightarrow> build_categories lib block fmt cats (out(cat \<mapsto> pts))))"

text \<open>\<^verbatim>\<open>out.get(k, [])\<close>.\<close>

definition get_points :: "(string \<rightharpoonup> point list) \<Rightarrow> string \<Rightarrow> point list" where
  "get_points out k = (case out k of None \<Rightarrow> [] | Some pts \<Rightarrow> pts)"

definition empty_out :: "string \<rightharpoonup> point list" where
  "empty_out = fold (\<lambda>k out. out(k \<mapsto> [])) type_order Map.empty"

definition build_points_for_map ::
  "extern \<Rightarrow> json \<Rightarrow> string \<Rightarrow> string \<Rightarrow> error + (string \<rightharpoonup> point list)" where
  "build_points_for_map lib game_data fmt map_name =
     (case get_map_block game_data fmt map_name of
        Inl e \<Rightarrow> Inl e
      | Inr block \<Rightarrow>
          if \<not> (case block of None \<Rightarrow> False | Some b \<Rightarrow> truthy b) then Inr empty_out
          else
            (case build_categories lib block fmt type_order empty_out of
               Inl e \<Rightarrow> Inl e
             | Inr out \<Rightarrow>
                 (let union = fold (\<lambda>src un. un @ get_points out src)
                                [''towers'', ''big_towers'', ''armories''] []
                  in Inr (out(''possible_xp'' \<mapsto> union)))))"

fun rebuild_all_caches ::
  "extern \<Rightarrow> json \<Rightarrow> string \<Rightarrow> string list \<Rightarrow> (string \<rightharpoonup> (string \<rightharpoonup> point list)) \<Rightarrow>
   error + (string \<rightharpoonup> (string \<rightharpoonup> point list))" where
  "rebuild_all_caches lib game_data fmt [] cache = Inr cache"
| "rebuild_all_caches lib game_data fmt (m # ms) cache =
     (case build_points_for_map lib game_data fmt m of
        Inl e \<Rightarrow> Inl e
      | Inr out \<Rightarrow> rebuild_all_caches lib game_data fmt ms (cache(m \<mapsto> out)))"

subsection \<open>IdentityResolver and HiddenStateStore\<close>

definition hidden_key :: "string \<Rightarrow> point \<Rightarrow> string" where
  "hidden_key tkey pt =
     (let xi = py_round (pt_x pt);
          yi = py_round (pt_y pt)
      in if tkey = ''possible_xp''
         then pt_src pt @ '':'' @ str_int xi @ '':'' @ str_int yi
         else str_int xi @ '':'' @ str_int yi)"

text \<open>\<^verbatim>\<open>hidden_sets.get(tkey, set())\<close>.\<close>

definition get_hidden :: "(string \<rightharpoonup> json set) \<Rightarrow> string \<Rightarrow> json set" where
  "get_hidden hs tkey = (case hs tkey of None \<Rightarrow> {} | Some S \<Rightarrow> S)"

definition is_hidden :: "(string \<rightharpoonup> json set) \<Rightarrow> string \<Rightarrow> point \<Rightarrow> bool" where
  "is_hidden hs tkey pt = (JStr (hidden_key tkey pt) \<in> get_hidden hs tkey)"

subsection \<open>The state of the overlay\<close>

record qrect =
  rect_left :: int
  rect_top :: int
  rect_width :: int
  rect_height :: int

record hover_result =
  hv_map :: string
  hv_type :: string
  hv_index :: nat
  hv_pt_ref :: point

text \<open>
  The attributes of \<^verbatim>\<open>Overlay\<close> that the engine reads and writes; \<open>profiles\<close> is
  \<^verbatim>\<open>self.data["profiles"]\<close>. The field \<open>hide_calls\<close> is not in the source: it counts the
  calls of \<^verbatim>\<open>_hide_hovered\<close>, so that a call with no hover result, which changes nothing,
  can still be observed.
\<close>

record overlay =
  profiles :: "(string \<times> json) list"
  num_sw :: bool
  prof :: string
  visible :: bool
  master :: bool
  global_scale :: real
  types :: "string \<rightharpoonup> (string \<times> json) list"
  hidden :: "(string \<times> json) list"
  hidden_sets :: "string \<rightharpoonup> json set"
  rect :: "qrect option"
  pbt :: bool
  pH :: bool
  pT :: bool
  pHide :: bool
  hover :: "hover_result option"
  cache :: "string \<rightharpoonup> (string \<rightharpoonup> point list)"
  hide_calls :: nat

text \<open>
  What one tick samples: \<^verbatim>\<open>key(vk)\<close> for each virtual key, the cursor position mapped into
  the overlay (\<^verbatim>\<open>mapFromGlobal(QCursor.pos())\<close>) and the size of the primary screen.
\<close>

record tick_in =
  key_bt :: bool
  key_h :: bool
  key_tab :: bool
  key_1 :: bool
  key_2 :: bool
  key_3 :: bool
  key_4 :: bool
  key_delete :: bool
  key_control :: bool
  key_menu :: bool
  key_shift :: bool
  cursor_x :: int
  cursor_y :: int
  screen_w :: int
  screen_h :: int

subsection \<open>Saving\<close>

text \<open>
  A hidden set is a set of the hashable values of the configuration: numbers (with the
  booleans), strings and \<^verbatim>\<open>None\<close>. \<^verbatim>\<open>sorted(list(S))\<close> raises \<^verbatim>\<open>TypeError\<close> when it has
  to compare a string with a number, or \<^verbatim>\<open>None\<close> with anything. Python keeps one of several
  equal numbers (\<^verbatim>\<open>1\<close>, \<^verbatim>\<open>1.0\<close>, \<^verbatim>\<open>True\<close>) in a set; the model keeps them all, which no
  operation modelled here can tell apart.
\<close>

fun is_str :: "json \<Rightarrow> bool" where
  "is_str (JStr t) = True"
| "is_str _ = False"

fun is_num :: "json \<Rightarrow> bool" where
  "is_num (JInt i) = True"
| "is_num (JFloat r) = True"
| "is_num (JBool b) = True"
| "is_num _ = False"

definition sortable :: "json set \<Rightarrow> bool" where
  "sortable S =
     (\<not> ((\<exists>x\<in>S. is_str x) \<and> (\<exists>x\<in>S. is_num x)) \<and> \<not> (JNull \<in> S \<and> (\<exists>x\<in>S. x \<noteq> JNull)))"

text \<open>\<^verbatim>\<open>_save\<close>: the exception it raises, if any.\<close>

definition sort_error :: "(string \<rightharpoonup> json set) \<Rightarrow> error option" where
  "sort_error hs =
     (if \<forall>k\<in>set type_order. sortable (get_hidden hs k) then None else Some TypeError)"

definition save :: "overlay \<Rightarrow> error option" where
  "save s = sort_error (hidden_sets s)"

text \<open>
  A handler returns the exception that ended it, if any, and the state it left;
  \<open>and_then\<close> runs the rest of a handler when its first part raised nothing.
\<close>

definition and_then ::
  "error option \<times> overlay \<Rightarrow> (overlay \<Rightarrow> error option \<times> overlay) \<Rightarrow> error option \<times> overlay" where
  "and_then r f = (case r of (Some e, s) \<Rightarrow> (Some e, s) | (None, s) \<Rightarrow> f s)"

subsection \<open>Rectangle of the selected map\<close>

text \<open>\<^verbatim>\<open>int(rr[k] * W)\<close>: a string times an integer is the string repeated.\<close>

definition ratio_px :: "extern \<Rightarrow> (string \<times> json) list \<Rightarrow> string \<Rightarrow> int \<Rightarrow> error + int" where
  "ratio_px lib rr k W =
     (case map_of rr k of
        None \<Rightarrow> Inl KeyError
      | Some (JInt i) \<Rightarrow> Inr (i * W)
      | Some (JFloat r) \<Rightarrow> Inr (py_trunc (r * real_of_int W))
      | Some (JBool b) \<Rightarrow> Inr ((if b then 1 else 0) * W)
      | Some (JStr t) \<Rightarrow>
          (case int_of_str lib (concat (replicate (nat W) t)) of
             None \<Rightarrow> Inl ValueError
           | Some i \<Rightarrow> Inr i)
      | Some _ \<Rightarrow> Inl TypeError)"

definition apply_rect :: "extern \<Rightarrow> int \<Rightarrow> int \<Rightarrow> overlay \<Rightarrow> error + overlay" where
  "apply_rect lib W H s =
     (case map_of (profiles s) (prof s) of
        None \<Rightarrow> Inl KeyError
      | Some (JDict pd) \<Rightarrow>
          (case map_of pd ''rect_ratio'' of
             Some (JDict rr) \<Rightarrow>
               (case ratio_px lib rr ''rx'' W of
                  Inl e \<Rightarrow> Inl e
                | Inr x \<Rightarrow>
                    (case ratio_px lib rr ''ry'' H of
                       Inl e \<Rightarrow> Inl e
                     | Inr y \<Rightarrow>
                         (case ratio_px lib rr ''rw'' W of
                            Inl e \<Rightarrow> Inl e
                          | Inr w \<Rightarrow>
                              (case ratio_px lib rr ''rh'' H of
                                 Inl e \<Rightarrow> Inl e
                               | Inr h \<Rightarrow>
                                   Inr (s\<lparr>rect := Some \<lparr>rect_left = x, rect_top = y,
                                          rect_width = max 1 w, rect_height = max 1 h\<rparr>\<rparr>)))))
           | _ \<Rightarrow> Inr (s\<lparr>rect := None\<rparr>))
      | Some _ \<Rightarrow> Inl AttributeError)"

text \<open>\<^verbatim>\<open>switch(name)\<close>. An exception of \<^verbatim>\<open>_apply_rect\<close> leaves the new \<^verbatim>\<open>prof\<close> in place.\<close>

definition switch :: "extern \<Rightarrow> int \<Rightarrow> int \<Rightarrow> string \<Rightarrow> overlay \<Rightarrow> error option \<times> overlay" where
  "switch lib W H name s =
     (if name \<in> set MAPS \<and> name \<noteq> prof s then
        (let s = s\<lparr>prof := name\<rparr> in
         case apply_rect lib W H s of
           Inl e \<Rightarrow> (Some e, s)
         | Inr s' \<Rightarrow> (save s', s'))
      else (None, s))"

subsection \<open>Hiding the hovered point\<close>

definition hide_hovered :: "overlay \<Rightarrow> error option \<times> overlay" where
  "hide_hovered s0 =
     (let s = s0\<lparr>hide_calls := Suc (hide_calls s0)\<rparr> in
      case hover s of
        None \<Rightarrow> (None, s)
      | Some h \<Rightarrow>
          (let tkey = hv_type h;
               pt = hv_pt_ref h;
               hk = hidden_key tkey pt;
               s1 = s\<lparr>hidden_sets :=
                      (hidden_sets s)(tkey \<mapsto> insert (JStr hk) (get_hidden (hidden_sets s) tkey))\<rparr>
           in case save s1 of
                Some e \<Rightarrow> (Some e, s1)
              | None \<Rightarrow> (None, s1\<lparr>hover := None\<rparr>)))"

subsection \<open>HoverHitTester\<close>

text \<open>\<^verbatim>\<open>self.types.get(tkey, {}).get("enabled", True)\<close>.\<close>

definition type_enabled :: "(string \<rightharpoonup> (string \<times> json) list) \<Rightarrow> string \<Rightarrow> bool" where
  "type_enabled ts tkey =
     (case ts tkey of
        None \<Rightarrow> True
      | Some d \<Rightarrow> (case map_of d ''enabled'' of None \<Rightarrow> True | Some v \<Rightarrow> truthy v))"

text \<open>The squared distance \<^verbatim>\<open>d2\<close> of the pointer \<^verbatim>\<open>(mx, my)\<close> to a point drawn in \<open>r\<close>.\<close>

definition dist2 :: "qrect \<Rightarrow> real \<Rightarrow> real \<Rightarrow> point \<Rightarrow> real" where
  "dist2 r mx my pt =
     (let cx = real_of_int (rect_left r) + pt_u pt * real_of_int (rect_width r);
          cy = real_of_int (rect_top r) + pt_v pt * real_of_int (rect_height r);
          dx = mx - cx;
          dy = my - cy
      in dx * dx + dy * dy)"

text \<open>The inner loop, over \<^verbatim>\<open>enumerate(pts_by_type.get(tkey, []))\<close>.\<close>

fun scan_points ::
  "(string \<rightharpoonup> json set) \<Rightarrow> qrect \<Rightarrow> real \<Rightarrow> real \<Rightarrow> string \<Rightarrow> string \<Rightarrow>
   (nat \<times> point) list \<Rightarrow> hover_result option \<times> real \<Rightarrow> hover_result option \<times> real" where
  "scan_points hs r mx my pr tkey [] acc = acc"
| "scan_points hs r mx my pr tkey ((idx, pt) # rest) (best, best_d2) =
     (if is_hidden hs tkey pt then scan_points hs r mx my pr tkey rest (best, best_d2)
      else
        (let d2 = dist2 r mx my pt in
         if d2 \<le> best_d2
         then scan_points hs r mx my pr tkey rest
                (Some \<lparr>hv_map = pr, hv_type = tkey, hv_index = idx, hv_pt_ref = pt\<rparr>, d2)
         else scan_points hs r mx my pr tkey rest (best, best_d2)))"

text \<open>The outer loop, over \<^verbatim>\<open>type_order\<close>.\<close>

fun scan_types ::
  "(string \<rightharpoonup> (string \<times> json) list) \<Rightarrow> (string \<rightharpoonup> json set) \<Rightarrow> qrect \<Rightarrow> real \<Rightarrow> real \<Rightarrow>
   string \<Rightarrow> (string \<rightharpoonup> point list) \<Rightarrow> string list \<Rightarrow> hover_result option \<times> real \<Rightarrow>
   hover_result option \<times> real" where
  "scan_types ts hs r mx my pr pts_by_type [] acc = acc"
| "scan_types ts hs r mx my pr pts_by_type (tkey # tkeys) acc =
     (if \<not> type_enabled ts tkey then scan_types ts hs r mx my pr pts_by_type tkeys acc
      else scan_types ts hs r mx my pr pts_by_type tkeys
             (scan_points hs r mx my pr tkey (enumerate 0 (get_points pts_by_type tkey)) acc))"

definition hover_radius :: int where
  "hover_radius = 10"

text \<open>
  \<^verbatim>\<open>_update_hover\<close>. The rectangle is \<^verbatim>\<open>None\<close> or a \<^verbatim>\<open>QRect\<close>; in a condition a
  \<^verbatim>\<open>QRect\<close> counts as false when Qt calls it null, that is of width and height \<open>0\<close>.
\<close>

definition rect_truthy :: "qrect option \<Rightarrow> bool" where
  "rect_truthy ro = (case ro of None \<Rightarrow> False | Some r \<Rightarrow> \<not> (rect_width r = 0 \<and> rect_height r = 0))"

definition update_hover :: "tick_in \<Rightarrow> overlay \<Rightarrow> overlay" where
  "update_hover k s0 =
     (let s = s0\<lparr>hover := None\<rparr> in
      if \<not> (master s \<and> visible s \<and> rect_truthy (rect s)) then s
      else
        (case rect s of
           None \<Rightarrow> s
         | Some r \<Rightarrow>
             (let mx = real_of_int (cursor_x k);
                  my = real_of_int (cursor_y k);
                  pts_by_type = (case cache s (prof s) of None \<Rightarrow> Map.empty | Some c \<Rightarrow> c);
                  best_d2 = real_of_int (hover_radius * hover_radius);
                  res = scan_types (types s) (hidden_sets s) r mx my (prof s) pts_by_type
                          type_order (None, best_d2)
              in s\<lparr>hover := fst res\<rparr>)))"

subsection \<open>InputEdgeDetector: one tick\<close>

definition tick_master :: "tick_in \<Rightarrow> overlay \<Rightarrow> error option \<times> overlay" where
  "tick_master k s0 =
     (let nb = key_bt k in
      if nb \<and> \<not> pbt s0 then
        (let s1 = s0\<lparr>master := \<not> master s0\<rparr>;
             s2 = (if \<not> master s1 \<and> visible s1 then s1\<lparr>visible := False\<rparr> else s1)
         in case save s2 of
              Some e \<Rightarrow> (Some e, s2)
            | None \<Rightarrow> (None, s2\<lparr>pbt := nb\<rparr>))
      else (None, s0\<lparr>pbt := nb\<rparr>))"

definition tick_h :: "tick_in \<Rightarrow> overlay \<Rightarrow> error option \<times> overlay" where
  "tick_h k s0 =
     (let nh = key_h k in
      if nh \<and> \<not> pH s0 \<and> visible s0 then
        (let s1 = s0\<lparr>visible := False\<rparr>
         in case save s1 of
              Some e \<Rightarrow> (Some e, s1)
            | None \<Rightarrow> (None, s1\<lparr>pH := nh\<rparr>))
      else (None, s0\<lparr>pH := nh\<rparr>))"

definition tick_tab :: "tick_in \<Rightarrow> overlay \<Rightarrow> error option \<times> overlay" where
  "tick_tab k s0 =
     (let nt = key_tab k in
      if nt \<and> \<not> pT s0 then
        (let s1 = s0\<lparr>visible := \<not> visible s0\<rparr>
         in case save s1 of
              Some e \<Rightarrow> (Some e, s1)
            | None \<Rightarrow> (None, s1\<lparr>pT := nt\<rparr>))
      else (None, s0\<lparr>pT := nt\<rparr>))"

definition tick_switch :: "extern \<Rightarrow> tick_in \<Rightarrow> overlay \<Rightarrow> error option \<times> overlay" where
  "tick_switch lib k s =
     (if visible s \<and> num_sw s then
        (if key_1 k then switch lib (screen_w k) (screen_h k) (MAPS ! 0) s
         else if key_2 k then switch lib (screen_w k) (screen_h k) (MAPS ! 1) s
         else if key_3 k then switch lib (screen_w k) (screen_h k) (MAPS ! 2) s
         else if key_4 k then switch lib (screen_w k) (screen_h k) (MAPS ! 3) s
         else (None, s))
      else (None, s))"

definition chord :: "tick_in \<Rightarrow> bool" where
  "chord k = (key_delete k \<and> key_control k \<and> key_menu k \<and> key_shift k)"

definition tick_chord :: "tick_in \<Rightarrow> overlay \<Rightarrow> error option \<times> overlay" where
  "tick_chord k s0 =
     (let hide_now = chord k in
      if hide_now \<and> \<not> pHide s0
      then and_then (hide_hovered s0) (\<lambda>s. (None, s\<lparr>pHide := hide_now\<rparr>))
      else (None, s0\<lparr>pHide := hide_now\<rparr>))"

text \<open>
  \<^verbatim>\<open>_tick\<close>: the exception that ends it early, if any, and the state it leaves.
  \<^verbatim>\<open>_tick_safe\<close> catches the exception and keeps that state.
\<close>

definition tick :: "extern \<Rightarrow> tick_in \<Rightarrow> overlay \<Rightarrow> error option \<times> overlay" where
  "tick lib k s0 =
     and_then (tick_master k s0) (\<lambda>s1.
     and_then (tick_h k s1) (\<lambda>s2.
       if \<not> master s2 then (None, s2)
       else
         and_then (tick_tab k s2) (\<lambda>s3.
         and_then (tick_switch lib k s3) (\<lambda>s4.
           tick_chord k (if visible s4 then update_hover k s4 else s4)))))"

definition tick_safe :: "extern \<Rightarrow> tick_in \<Rightarrow> overlay \<Rightarrow> overlay" where
  "tick_safe lib k s = snd (tick lib k s)"

subsection \<open>The actions of the control panel\<close>

text \<open>The two \<^verbatim>\<open>if\<close> statements that follow every assignment to \<^verbatim>\<open>global_scale\<close>.\<close>

definition clamp_scale :: "real \<Rightarrow> real" where
  "clamp_scale g0 =
     (let g = (if g0 < 0.10 then 0.10 else g0);
          g = (if g > 5.00 then 5.00 else g)
      in g)"

definition scale_changed :: "real \<Rightarrow> overlay \<Rightarrow> error option \<times> overlay" where
  "scale_changed scale s0 = (let s = s0\<lparr>global_scale := clamp_scale scale\<rparr> in (save s, s))"

definition set_num_switch :: "bool \<Rightarrow> overlay \<Rightarrow> error option \<times> overlay" where
  "set_num_switch v s0 = (let s = s0\<lparr>num_sw := v\<rparr> in (save s, s))"

definition type_toggle :: "string \<Rightarrow> bool \<Rightarrow> overlay \<Rightarrow> error option \<times> overlay" where
  "type_toggle tkey enabled s0 =
     (case types s0 tkey of
        None \<Rightarrow> (None, s0)
      | Some d \<Rightarrow>
          (let s = s0\<lparr>types := (types s0)(tkey \<mapsto> AList.update ''enabled'' (JBool enabled) d)\<rparr>
           in (save s, s)))"

definition type_color :: "string \<Rightarrow> json \<Rightarrow> overlay \<Rightarrow> error option \<times> overlay" where
  "type_color tkey rgb s0 =
     (case types s0 tkey of
        None \<Rightarrow> (None, s0)
      | Some d \<Rightarrow>
          (let s = s0\<lparr>types := (types s0)(tkey \<mapsto> AList.update ''color'' rgb d)\<rparr>
           in (save s, s)))"

fun reset_types :: "extern \<Rightarrow> string list \<Rightarrow> overlay \<Rightarrow> error option \<times> overlay" where
  "reset_types lib [] s = (None, s)"
| "reset_types lib (k # ks) s =
     (case types s k of
        None \<Rightarrow> (Some KeyError, s)
      | Some d \<Rightarrow>
          reset_types lib ks
            (s\<lparr>types := (types s)(k \<mapsto> AList.update ''color'' (default_fill lib k)
                                        (AList.update ''enabled'' (JBool True) d))\<rparr>))"

definition reset_colors :: "extern \<Rightarrow> overlay \<Rightarrow> error option \<times> overlay" where
  "reset_colors lib s0 = and_then (reset_types lib type_order s0) (\<lambda>s. (save s, s))"

text \<open>
  Everything that changes the state after start-up: the timer's tick and the signals of the
  panel. An exception ends the handler and the state stays as the handler left it.
\<close>

datatype action =
    Tick tick_in
  | SetNumSwitch bool
  | TypeToggle string bool
  | TypeColor string json
  | ScaleChanged real
  | ResetColors
  | Switch int int string

fun step :: "extern \<Rightarrow> overlay \<Rightarrow> action \<Rightarrow> overlay" where
  "step lib s (Tick k) = tick_safe lib k s"
| "step lib s (SetNumSwitch v) = snd (set_num_switch v s)"
| "step lib s (TypeToggle tkey enabled) = snd (type_toggle tkey enabled s)"
| "step lib s (TypeColor tkey rgb) = snd (type_color tkey rgb s)"
| "step lib s (ScaleChanged scale) = snd (scale_changed scale s)"
| "step lib s ResetColors = snd (reset_colors lib s)"
| "step lib s (Switch W H name) = snd (switch lib W H name s)"

definition run :: "extern \<Rightarrow> overlay \<Rightarrow> action list \<Rightarrow> overlay" where
  "run lib s acts = foldl (step lib) s acts"

subsection \<open>ConfigStore\<close>

definition default_rect_ratio :: json where
  "default_rect_ratio =
     JDict [(''rx'', JFloat (790 / 2560)), (''ry'', JFloat (210 / 1440)),
            (''rw'', JFloat (983 / 2560)), (''rh'', JFloat (984 / 1440))]"

record config =
  cfg_profiles :: "(string \<times> json) list"
  cfg_settings :: "(string \<times> json) list"

definition base_config :: config where
  "base_config =
     \<lparr>cfg_profiles = map (\<lambda>m. (m, JDict [(''rect_ratio'', default_rect_ratio)])) MAPS,
      cfg_settings =
        [(''enable_num_switch'', JBool True),
         (''selected_map'', JStr (MAPS ! 0)),
         (''visible_overlay'', JBool False),
         (''master_on'', JBool True),
         (''global_scale'', JFloat 1.00),
         (''types'', JDict []),
         (''hidden'', JDict [])]\<rparr>"

text \<open>The loop of \<^verbatim>\<open>_load_config\<close> over \<^verbatim>\<open>MAPS\<close>; \<^verbatim>\<open>.get\<close> on a profile that is no dict raises.\<close>

fun fix_profiles :: "string list \<Rightarrow> (string \<times> json) list \<Rightarrow> error + (string \<times> json) list" where
  "fix_profiles [] ps = Inr ps"
| "fix_profiles (m # ms) ps0 =
     (let ps = (if map_of ps0 m = None
                then AList.update m (JDict [(''rect_ratio'', default_rect_ratio)]) ps0 else ps0)
      in case map_of ps m of
           Some (JDict pd) \<Rightarrow>
             (case map_of pd ''rect_ratio'' of
                Some (JDict rr) \<Rightarrow> fix_profiles ms ps
              | _ \<Rightarrow>
                  fix_profiles ms
                    (AList.update m (JDict (AList.update ''rect_ratio'' default_rect_ratio pd)) ps))
         | _ \<Rightarrow> Inl AttributeError)"

text \<open>
  The merge of \<^verbatim>\<open>_load_config\<close>: the two sections of the payload \<open>d\<close> that are dicts
  update the defaults, \<^verbatim>\<open>profiles\<close> first.
\<close>

definition merge_payload :: "json \<Rightarrow> config" where
  "merge_payload d =
     (case d of
        JDict dd \<Rightarrow>
          (let b1 = (case map_of dd ''profiles'' of
                       Some (JDict p) \<Rightarrow>
                         base_config\<lparr>cfg_profiles := dict_update (cfg_profiles base_config) p\<rparr>
                     | _ \<Rightarrow> base_config)
           in case map_of dd ''settings'' of
                Some (JDict st) \<Rightarrow> b1\<lparr>cfg_settings := dict_update (cfg_settings b1) st\<rparr>
              | _ \<Rightarrow> b1)
      | _ \<Rightarrow> base_config)"

text \<open>
  \<^verbatim>\<open>_load_config\<close>. The argument is what \<^verbatim>\<open>load_json(CONFIG_PATH)\<close> returns; \<open>None\<close> stands
  for a file that is missing or that \<^verbatim>\<open>load_json\<close> cannot read, where \<^verbatim>\<open>d\<close> stays \<^verbatim>\<open>{}\<close>.
\<close>

definition load_config :: "json option \<Rightarrow> error + config" where
  "load_config file =
     (let d = (case file of None \<Rightarrow> JDict [] | Some j \<Rightarrow> j);
          base = merge_payload d
      in case fix_profiles MAPS (cfg_profiles base) of
           Inl e \<Rightarrow> Inl e
         | Inr ps \<Rightarrow> Inr (base\<lparr>cfg_profiles := ps\<rparr>))"

subsection \<open>Start-up\<close>

text \<open>\<^verbatim>\<open>d.get(k, dflt)\<close>.\<close>

definition dict_get_or :: "(string \<times> json) list \<Rightarrow> string \<Rightarrow> json \<Rightarrow> json" where
  "dict_get_or d k dflt = (case map_of d k of None \<Rightarrow> dflt | Some v \<Rightarrow> v)"

text \<open>
  The loop of \<^verbatim>\<open>__init__\<close> that completes \<^verbatim>\<open>self.types\<close>. An entry that is no dict ends
  start-up with \<^verbatim>\<open>TypeError\<close>, in this loop or, for a list or string that happens to contain
  both keys, where the panel is filled a few lines later.
\<close>

fun init_types :: "extern \<Rightarrow> string list \<Rightarrow> (string \<times> json) list \<Rightarrow> error + (string \<times> json) list" where
  "init_types lib [] td = Inr td"
| "init_types lib (k # ks) td0 =
     (let td = (if map_of td0 k = None
                then AList.update k (JDict [(''enabled'', JBool True),
                                            (''color'', default_fill lib k)]) td0
                else td0)
      in case map_of td k of
           Some (JDict d0) \<Rightarrow>
             (let d1 = (if map_of d0 ''enabled'' = None
                        then AList.update ''enabled'' (JBool True) d0 else d0);
                  d2 = (if map_of d1 ''color'' = None
                        then AList.update ''color'' (default_fill lib k) d1 else d1)
              in init_types lib ks (AList.update k (JDict d2) td))
         | _ \<Rightarrow> Inl TypeError)"

text \<open>The state keeps the entries of \<^verbatim>\<open>self.types\<close> that are dicts, by category.\<close>

definition types_of :: "(string \<times> json) list \<Rightarrow> (string \<rightharpoonup> (string \<times> json) list)" where
  "types_of td = (\<lambda>k. case map_of td k of Some (JDict d) \<Rightarrow> Some d | _ \<Rightarrow> None)"

fun fill_hidden :: "string list \<Rightarrow> (string \<times> json) list \<Rightarrow> (string \<times> json) list" where
  "fill_hidden [] hid = hid"
| "fill_hidden (k # ks) hid =
     fill_hidden ks
       (case map_of hid k of Some (JList l) \<Rightarrow> hid | _ \<Rightarrow> AList.update k (JList []) hid)"

text \<open>\<^verbatim>\<open>set(l)\<close> for a list of the configuration: a list or a dict in it cannot be hashed.\<close>

fun hidden_set :: "json list \<Rightarrow> error + json set" where
  "hidden_set [] = Inr {}"
| "hidden_set (v # vs) =
     (case v of
        JList l \<Rightarrow> Inl TypeError
      | JDict d \<Rightarrow> Inl TypeError
      | _ \<Rightarrow> (case hidden_set vs of Inl e \<Rightarrow> Inl e | Inr S \<Rightarrow> Inr (insert v S)))"

fun init_hidden_sets ::
  "string list \<Rightarrow> (string \<times> json) list \<Rightarrow> (string \<rightharpoonup> json set) \<Rightarrow> error + (string \<rightharpoonup> json set)" where
  "init_hidden_sets [] hid hs = Inr hs"
| "init_hidden_sets (k # ks) hid hs =
     (case hidden_set (list_or_empty (map_of hid k)) of
        Inl e \<Rightarrow> Inl e
      | Inr S \<Rightarrow> init_hidden_sets ks hid (hs(k \<mapsto> S)))"

text \<open>
  \<^verbatim>\<open>Overlay.__init__\<close> from the loading of \<^verbatim>\<open>data.json\<close> on, with \<open>game_data\<close> the value
  loaded from it, \<open>file\<close> the configuration file and \<open>W\<close>, \<open>H\<close> the size of the screen;
  the style data are taken as loaded, in \<open>default_fill\<close>. The statements run in the source's
  order, the ones that only build widgets left out. An exception ends start-up and no
  \<^verbatim>\<open>Overlay\<close> exists.
\<close>

definition overlay_init :: "extern \<Rightarrow> int \<Rightarrow> int \<Rightarrow> json \<Rightarrow> json option \<Rightarrow> error + overlay" where
  "overlay_init lib W H game_data file =
     (let fmt = detect_data_format game_data in
      if fmt = ''unknown'' then Inl (RuntimeError ''Unrecognized data.json format'')
      else
        (case load_config file of
           Inl e \<Rightarrow> Inl e
         | Inr data \<Rightarrow>
             (let st = cfg_settings data;
                  sel = dict_get_or st ''selected_map'' (JStr (MAPS ! 0))
              in case py_float lib (dict_get_or st ''global_scale'' (JFloat 1.00)) of
                   Inl e \<Rightarrow> Inl e
                 | Inr g \<Rightarrow>
                     (case dict_get_or st ''types'' (JDict []) of
                        JDict td0 \<Rightarrow>
                          (case init_types lib type_order td0 of
                             Inl e \<Rightarrow> Inl e
                           | Inr td \<Rightarrow>
                               (let hid = fill_hidden type_order
                                           (case dict_get_or st ''hidden'' (JDict []) of
                                              JDict h \<Rightarrow> h | _ \<Rightarrow> [])
                                in case init_hidden_sets type_order hid Map.empty of
                                     Inl e \<Rightarrow> Inl e
                                   | Inr hs \<Rightarrow>
                                       (case apply_rect lib W H
                                          \<lparr>profiles = cfg_profiles data,
                                           num_sw = truthy (dict_get_or st ''enable_num_switch'' (JBool True)),
                                           prof = (case sel of
                                                     JStr n \<Rightarrow> if n \<in> set MAPS then n else MAPS ! 0
                                                   | _ \<Rightarrow> MAPS ! 0),
                                           visible = truthy (dict_get_or st ''visible_overlay'' (JBool False)),
                                           master = truthy (dict_get_or st ''master_on'' (JBool True)),
                                           global_scale = clamp_scale g,
                                           types = types_of td,
                                           hidden = hid,
                                           hidden_sets = hs,
                                           rect = None,
                                           pbt = False, pH = False, pT = False, pHide = False,
                                           hover = None,
                                           cache = Map.empty,
                                           hide_calls = 0\<rparr> of
                                          Inl e \<Rightarrow> Inl e
                                        | Inr s \<Rightarrow>
                                            (case rebuild_all_caches lib game_data fmt MAPS Map.empty of
                                               Inl e \<Rightarrow> Inl e
                                             | Inr c \<Rightarrow> Inr (s\<lparr>cache := c\<rparr>)))))
                      | _ \<Rightarrow> Inl TypeError))))"

section \<open>Notions of the specification\<close>

subsection \<open>The candidates of the hit test\<close>





subsection \<open>The derived category\<close>

text \<open>
  The invariant of the loop that fills \<^verbatim>\<open>out\<close>: outside \<^verbatim>\<open>possible_xp\<close> a point carries
  the category it is stored under.
\<close>

definition src_ok :: "(string \<rightharpoonup> point list) \<Rightarrow> bool" where
  "src_ok out = (\<forall>cat. cat \<noteq> ''possible_xp'' \<longrightarrow> (\<forall>p\<in>set (get_points out cat). pt_src p = cat))"

text \<open>
  The specification's invariant of the derived category: the list of \<^verbatim>\<open>possible_xp\<close> is the
  lists of the three source categories concatenated in the fixed order, its length is the sum
  of theirs, and the members of a source category name it as their source.
\<close>

definition is_union_of_sources :: "(string \<rightharpoonup> point list) \<Rightarrow> bool" where
  "is_union_of_sources out =
     (out ''possible_xp'' =
        Some (get_points out ''towers'' @ get_points out ''big_towers'' @ get_points out ''armories'') \<and>
      length (get_points out ''possible_xp'') =
        length (get_points out ''towers'') + length (get_points out ''big_towers'') +
        length (get_points out ''armories'') \<and>
      (\<forall>src\<in>set [''towers'', ''big_towers'', ''armories''].
         \<forall>p\<in>set (get_points out src). pt_src p = src))"

subsection \<open>Runs of the timer\<close>

text \<open>
  The hidden sets as the program itself fills them: every member of the set of a category is
  a string. Such sets can always be sorted.
\<close>

definition strings_only :: "(string \<rightharpoonup> json set) \<Rightarrow> bool" where
  "strings_only hs = (\<forall>k\<in>set type_order. \<forall>x\<in>get_hidden hs k. is_str x)"




subsection \<open>Payloads and defaults of the configuration\<close>




section \<open>Example data\<close>

definition ex_lib :: extern where
  "ex_lib = \<lparr>float_of_str = (\<lambda>t. None), int_of_str = (\<lambda>t. None),
             default_fill = (\<lambda>k. JList [JInt 180, JInt 180, JInt 180])\<rparr>"

definition ex_pt :: "real \<Rightarrow> real \<Rightarrow> real \<Rightarrow> real \<Rightarrow> string \<Rightarrow> point" where
  "ex_pt u v x y src = \<lparr>pt_u = u, pt_v = v, pt_x = x, pt_y = y, pt_raw = JNull, pt_src = src\<rparr>"

definition ex_in :: tick_in where
  "ex_in =
     \<lparr>key_bt = False, key_h = False, key_tab = False, key_1 = False, key_2 = False,
      key_3 = False, key_4 = False, key_delete = False, key_control = False, key_menu = False,
      key_shift = False, cursor_x = 50, cursor_y = 50, screen_w = 2560, screen_h = 1440\<rparr>"

definition ex_chord_in :: tick_in where
  "ex_chord_in = ex_in\<lparr>key_delete := True, key_control := True, key_menu := True, key_shift := True\<rparr>"

definition ex_tab_chord_in :: tick_in where
  "ex_tab_chord_in = ex_chord_in\<lparr>key_tab := True\<rparr>"

definition ex_rect :: qrect where
  "ex_rect = \<lparr>rect_left = 0, rect_top = 0, rect_width = 100, rect_height = 100\<rparr>"

text \<open>
  A state for the hit test with the pointer at \<open>(50, 50)\<close>: the only point of the disabled
  \<^verbatim>\<open>spawns\<close> and the hidden first point of \<^verbatim>\<open>towers\<close> lie under the pointer, the second
  point of \<^verbatim>\<open>towers\<close> and the second of \<^verbatim>\<open>big_towers\<close> at squared distance \<open>9\<close>, the
  first of \<^verbatim>\<open>big_towers\<close> at \<open>16\<close>.
\<close>

definition ex_hover_state :: overlay where
  "ex_hover_state =
     \<lparr>profiles = [], num_sw = True, prof = ''DeSalle'', visible = True, master = True,
      global_scale = 1,
      types = [''spawns'' \<mapsto> [(''enabled'', JBool False)]],
      hidden = [],
      hidden_sets = [''towers'' \<mapsto> {JStr ''10:10''}],
      rect = Some ex_rect,
      pbt = False, pH = False, pT = False, pHide = False,
      hover = None,
      cache = [''DeSalle'' \<mapsto>
                 [''spawns'' \<mapsto> [ex_pt (1 / 2) (1 / 2) 7 7 ''spawns''],
                  ''towers'' \<mapsto> [ex_pt (1 / 2) (1 / 2) 10 10 ''towers'',
                                   ex_pt (53 / 100) (1 / 2) 1 1 ''towers''],
                  ''big_towers'' \<mapsto> [ex_pt (1 / 2) (54 / 100) 2 2 ''big_towers'',
                                       ex_pt (47 / 100) (1 / 2) 3 3 ''big_towers'']]],
      hide_calls = 0\<rparr>"


text \<open>
  A state whose hover result is the point \<open>(100, 200)\<close> of \<^verbatim>\<open>towers\<close>, hovered as a member
  of \<^verbatim>\<open>possible_xp\<close>, with nothing hidden yet.
\<close>

definition ex_hide_state :: overlay where
  "ex_hide_state =
     ex_hover_state\<lparr>hidden_sets := Map.empty,
       hover := Some \<lparr>hv_map = ''DeSalle'', hv_type = ''possible_xp'', hv_index = 0,
                      hv_pt_ref = ex_pt (1 / 2) (1 / 2) 100 200 ''towers''\<rparr>\<rparr>"

definition ex_item :: "int \<Rightarrow> int \<Rightarrow> json" where
  "ex_item x y = JDict [(''c'', JList [JInt x, JInt y])]"

definition ex_game_data :: json where
  "ex_game_data =
     JList [JDict [(''n'', JStr ''DeSalle''),
                   (''towers'', JList [ex_item 100 200, ex_item 300 400]),
                   (''big_towers'', JList [ex_item 1 2, JDict [(''c'', JList [JInt 5])], JStr ''junk'']),
                   (''armories'', JList [ex_item 7 8])]]"

text \<open>Start-up on a configuration file that holds \<^verbatim>\<open>{"settings": {"master_on": false}}\<close>.\<close>

definition ex_started_off :: "error + overlay" where
  "ex_started_off =
     overlay_init ex_lib 2560 1440 ex_game_data
       (Some (JDict [(''settings'', JDict [(''master_on'', JBool False)])]))"


section \<open>Properties\<close>

subsection \<open>CoordinateTransform\<close>

text \<open>
  Claim C2. For \<open>x\<close> and \<open>y\<close> in \<open>[0, 4095]\<close> the transform returns
  \<open>(y / 4095, (4095 - x) / 4095)\<close>, that is \<open>xr = y\<close> and \<open>yr = 4095 - x\<close> divided by
  \<open>4095\<close>; on any input each component is that quotient clamped to \<open>[0, 1]\<close>, so the result
  lies in \<open>[0, 1]\<close> \<open>\<times>\<close> \<open>[0, 1]\<close>;
  \<open>(0, 0)\<close> is sent to \<open>(0, 1)\<close> and \<open>(4095, 4095)\<close> to \<open>(1, 0)\<close>.
\<close>

theorem rotate90cw_norm_unit_square:
  assumes "0 \<le> x" "x \<le> 4095" "0 \<le> y" "y \<le> 4095"
  shows "rotate90cw_norm x y = (y / 4095, (4095 - x) / 4095) \<and>
         (\<forall>a b. rotate90cw_norm a b =
                  (max 0 (min 1 (b / 4095)), max 0 (min 1 ((4095 - a) / 4095)))) \<and>
         0 \<le> fst (rotate90cw_norm x y) \<and> fst (rotate90cw_norm x y) \<le> 1 \<and>
         0 \<le> snd (rotate90cw_norm x y) \<and> snd (rotate90cw_norm x y) \<le> 1 \<and>
         rotate90cw_norm 0 0 = (0, 1) \<and>
         rotate90cw_norm 4095 4095 = (1, 0)"
  using assms by (simp add: rotate90cw_norm_def Let_def)

theorem rotate90cw_norm_unit_square_witness:
  "rotate90cw_norm 819 1638 = (2 / 5, 4 / 5) \<and> rotate90cw_norm 0 0 = (0, 1) \<and>
   rotate90cw_norm 4095 4095 = (1, 0)"
  using rotate90cw_norm_unit_square [of 819 1638]
  by simp

subsection \<open>HoverHitTester\<close>












subsection \<open>PointCache\<close>

lemma build_item_src: "build_item lib cat it = Inr (Some p) \<Longrightarrow> pt_src p = cat"
  by (auto simp: build_item_def Let_def split: json.splits if_splits sum.splits prod.splits)

lemma build_items_src:
  "build_items lib cat items pts = Inr res \<Longrightarrow> \<forall>p\<in>set pts. pt_src p = cat \<Longrightarrow>
   \<forall>p\<in>set res. pt_src p = cat"
proof (induction items arbitrary: pts)
  case Nil
  then show ?case by simp
next
  case (Cons it items)
  show ?case
  proof (cases "build_item lib cat it")
    case (Inl e)
    with Cons.prems show ?thesis by simp
  next
    case (Inr po)
    show ?thesis
    proof (cases po)
      case None
      with Inr Cons show ?thesis by simp
    next
      case (Some p)
      with Inr have "pt_src p = cat" by (simp add: build_item_src)
      with Cons.prems(2) have "\<forall>q\<in>set (pts @ [p]). pt_src q = cat" by simp
      moreover from Cons.prems(1) Inr Some have "build_items lib cat items (pts @ [p]) = Inr res"
        by simp
      ultimately show ?thesis by (rule Cons.IH [rotated])
    qed
  qed
qed

lemma build_for_category_src:
  "build_for_category lib block fmt cat = Inr pts \<Longrightarrow> \<forall>p\<in>set pts. pt_src p = cat"
  unfolding build_for_category_def by (erule build_items_src) simp

lemma build_categories_inv:
  "build_categories lib block fmt cats out = Inr out' \<Longrightarrow> src_ok out \<Longrightarrow>
   src_ok out' \<and> out' ''possible_xp'' = out ''possible_xp''"
proof (induction cats arbitrary: out)
  case Nil
  then show ?case by simp
next
  case (Cons cat cats)
  show ?case
  proof (cases "cat = ''possible_xp''")
    case True
    with Cons show ?thesis by simp
  next
    case False
    with Cons.prems(1) obtain pts where pts: "build_for_category lib block fmt cat = Inr pts"
      and rest: "build_categories lib block fmt cats (out(cat \<mapsto> pts)) = Inr out'"
      by (auto split: sum.splits)
    have "src_ok (out(cat \<mapsto> pts))"
      using Cons.prems(2) build_for_category_src [OF pts]
      by (auto simp: src_ok_def get_points_def)
    from Cons.IH [OF rest this] False show ?thesis by simp
  qed
qed

lemma get_points_empty_out: "get_points empty_out k = []"
  by (simp add: get_points_def empty_out_def type_order_def)

lemma empty_out_possible_xp: "empty_out ''possible_xp'' = Some []"
  by (simp add: empty_out_def type_order_def)

lemma src_ok_empty_out: "src_ok empty_out"
  by (simp add: src_ok_def get_points_empty_out)

lemma possible_xp_is_union0:
  assumes "build_points_for_map lib game_data fmt map_name = Inr out"
  shows "out ''possible_xp'' =
           Some (get_points out ''towers'' @ get_points out ''big_towers'' @ get_points out ''armories'') \<and>
         length (get_points out ''possible_xp'') =
           length (get_points out ''towers'') + length (get_points out ''big_towers'') +
           length (get_points out ''armories'') \<and>
         (\<forall>p\<in>set (get_points out ''towers''). pt_src p = ''towers'') \<and>
         (\<forall>p\<in>set (get_points out ''big_towers''). pt_src p = ''big_towers'') \<and>
         (\<forall>p\<in>set (get_points out ''armories''). pt_src p = ''armories'')"
proof -
  from assms obtain block where block: "get_map_block game_data fmt map_name = Inr block"
    by (auto simp: build_points_for_map_def split: sum.splits)
  have "out ''possible_xp'' =
           Some (get_points out ''towers'' @ get_points out ''big_towers'' @ get_points out ''armories'') \<and>
        src_ok out"
  proof (cases "case block of None \<Rightarrow> False | Some b \<Rightarrow> truthy b")
    case False
    with assms block have "out = empty_out" by (simp add: build_points_for_map_def)
    then show ?thesis by (simp add: get_points_empty_out empty_out_possible_xp src_ok_empty_out)
  next
    case True
    with assms block obtain out0 where
      out0: "build_categories lib block fmt type_order empty_out = Inr out0" and
      out: "out = out0(''possible_xp'' \<mapsto>
              get_points out0 ''towers'' @ get_points out0 ''big_towers'' @ get_points out0 ''armories'')"
      by (auto simp: build_points_for_map_def Let_def split: sum.splits)
    from build_categories_inv [OF out0 src_ok_empty_out] have ok0: "src_ok out0" by simp
    have same: "get_points out t = get_points out0 t" if "t \<noteq> ''possible_xp''" for t
      using that by (simp add: out get_points_def)
    have "src_ok out" using ok0 same by (simp add: src_ok_def)
    moreover have "out ''possible_xp'' =
           Some (get_points out ''towers'' @ get_points out ''big_towers'' @ get_points out ''armories'')"
      by (simp add: same) (simp add: out)
    ultimately show ?thesis by simp
  qed
  then show ?thesis by (simp add: src_ok_def get_points_def)
qed

lemma and_then_eq: "and_then r f = (if fst r = None then f (snd r) else r)"
  by (cases r; cases "fst r") (auto simp: and_then_def)

lemma apply_rect_frame:
  "apply_rect lib W H s = Inr s' \<Longrightarrow> cache s' = cache s \<and> global_scale s' = global_scale s"
  unfolding apply_rect_def
  by (auto split: option.splits json.splits sum.splits)

lemma switch_frame:
  "cache (snd (switch lib W H name s)) = cache s \<and>
   global_scale (snd (switch lib W H name s)) = global_scale s"
  unfolding switch_def Let_def
  by (auto split: sum.splits dest: apply_rect_frame)

lemma hide_hovered_frame:
  "cache (snd (hide_hovered s)) = cache s \<and> global_scale (snd (hide_hovered s)) = global_scale s"
  by (simp add: hide_hovered_def Let_def split: option.splits)

lemma update_hover_frame:
  "cache (update_hover k s) = cache s \<and> global_scale (update_hover k s) = global_scale s"
  by (simp add: update_hover_def Let_def split: option.splits)

lemma tick_master_frame:
  "cache (snd (tick_master k s)) = cache s \<and> global_scale (snd (tick_master k s)) = global_scale s"
  by (simp add: tick_master_def Let_def split: option.splits)

lemma tick_h_frame:
  "cache (snd (tick_h k s)) = cache s \<and> global_scale (snd (tick_h k s)) = global_scale s"
  by (simp add: tick_h_def Let_def split: option.splits)

lemma tick_tab_frame:
  "cache (snd (tick_tab k s)) = cache s \<and> global_scale (snd (tick_tab k s)) = global_scale s"
  by (simp add: tick_tab_def Let_def split: option.splits)

lemma tick_chord_frame:
  "cache (snd (tick_chord k s)) = cache s \<and> global_scale (snd (tick_chord k s)) = global_scale s"
  by (simp add: tick_chord_def Let_def and_then_eq hide_hovered_frame)

lemma tick_switch_frame:
  "cache (snd (tick_switch lib k s)) = cache s \<and>
   global_scale (snd (tick_switch lib k s)) = global_scale s"
  by (simp add: tick_switch_def switch_frame)

lemma tick_frame:
  "cache (snd (tick lib k s)) = cache s \<and> global_scale (snd (tick lib k s)) = global_scale s"
  by (simp add: tick_def and_then_eq tick_master_frame tick_h_frame tick_tab_frame
      tick_switch_frame tick_chord_frame update_hover_frame)

lemma reset_types_frame:
  "cache (snd (reset_types lib ks s)) = cache s \<and>
   global_scale (snd (reset_types lib ks s)) = global_scale s"
  by (induction ks arbitrary: s) (auto split: option.splits)

lemma reset_colors_frame:
  "cache (snd (reset_colors lib s)) = cache s \<and>
   global_scale (snd (reset_colors lib s)) = global_scale s"
  by (simp add: reset_colors_def and_then_eq reset_types_frame)

lemma step_cache: "cache (step lib s a) = cache s"
  by (cases a)
    (simp_all add: tick_safe_def tick_frame set_num_switch_def type_toggle_def type_color_def
      scale_changed_def reset_colors_frame switch_frame Let_def split: option.splits)

lemma run_cache: "cache (run lib s acts) = cache s"
  unfolding run_def by (induction acts arbitrary: s) (simp_all add: step_cache)


lemma rebuild_all_caches_entries:
  "rebuild_all_caches lib gd fmt ms c0 = Inr c \<Longrightarrow>
   (\<forall>m\<in>set ms. \<exists>out. c m = Some out \<and> build_points_for_map lib gd fmt m = Inr out) \<and>
   (\<forall>m. m \<notin> set ms \<longrightarrow> c m = c0 m)"
proof (induction ms arbitrary: c0)
  case Nil
  then show ?case by simp
next
  case (Cons m ms)
  from Cons.prems obtain out where out: "build_points_for_map lib gd fmt m = Inr out"
    and rest: "rebuild_all_caches lib gd fmt ms (c0(m \<mapsto> out)) = Inr c"
    by (auto split: sum.splits)
  from Cons.IH [OF rest] have ih:
    "\<forall>m'\<in>set ms. \<exists>out. c m' = Some out \<and> build_points_for_map lib gd fmt m' = Inr out"
    "\<forall>m'. m' \<notin> set ms \<longrightarrow> c m' = (c0(m \<mapsto> out)) m'"
    by simp_all
  have "\<exists>o'. c m = Some o' \<and> build_points_for_map lib gd fmt m = Inr o'"
  proof (cases "m \<in> set ms")
    case True
    with ih(1) show ?thesis by blast
  next
    case False
    with ih(2) have "c m = Some out" by simp
    with out show ?thesis by simp
  qed
  moreover have "\<forall>m'. m' \<notin> set (m # ms) \<longrightarrow> c m' = c0 m'" using ih(2) by auto
  ultimately show ?case using ih(1) by auto
qed

lemma overlay_init_cache:
  assumes "overlay_init lib W H gd file = Inr s"
  shows "rebuild_all_caches lib gd (detect_data_format gd) MAPS Map.empty = Inr (cache s)"
  using assms unfolding overlay_init_def Let_def
  by (auto split: if_splits sum.splits json.splits dest: apply_rect_frame)

lemma ex_build:
  "\<exists>out. build_points_for_map ex_lib ex_game_data ''named'' ''DeSalle'' = Inr out \<and>
     map pt_src (get_points out ''possible_xp'') = [''towers'', ''towers'', ''big_towers'', ''armories''] \<and>
     map pt_x (get_points out ''possible_xp'') = [100, 300, 1, 7]"
  by (simp add: build_points_for_map_def get_map_block_def ex_game_data_def ex_item_def ex_lib_def
      type_order_def empty_out_def build_for_category_def get_category_list_def list_or_empty_def
      build_item_def coords_def rotate90cw_norm_def get_points_def Let_def)

lemmas init_defs = overlay_init_def detect_data_format_def load_config_def merge_payload_def
  base_config_def
  MAPS_def fix_profiles.simps default_rect_ratio_def dict_get_or_def type_order_def
  types_of_def list_or_empty_def apply_rect_def ratio_px_def py_trunc_def clamp_scale_def
  dict_update_def build_points_for_map_def get_map_block_def empty_out_def build_for_category_def
  get_category_list_def build_item_def coords_def rotate90cw_norm_def get_points_def Let_def

text \<open>
  Claim C3. Every cache build that returns has, for \<^verbatim>\<open>possible_xp\<close>, exactly the points of
  \<^verbatim>\<open>towers\<close>, \<^verbatim>\<open>big_towers\<close> and \<^verbatim>\<open>armories\<close>, concatenated in that order; its length is
  the sum of the three lengths, and every point of a source category carries that category
  as its \<^verbatim>\<open>src\<close>. After start-up and after any sequence of actions, the cache of every map
  is the result of such a build.
\<close>

theorem possible_xp_is_union:
  "(\<forall>out. build_points_for_map lib game_data fmt map_name = Inr out \<longrightarrow> is_union_of_sources out) \<and>
   (\<forall>s acts. overlay_init lib W H game_data file = Inr s \<longrightarrow>
      (\<forall>m\<in>set MAPS. \<exists>out. cache (run lib s acts) m = Some out \<and>
         build_points_for_map lib game_data (detect_data_format game_data) m = Inr out \<and>
         is_union_of_sources out))"
proof -
  have build: "is_union_of_sources out"
    if "build_points_for_map lib game_data f m = Inr out" for f m out
    using possible_xp_is_union0 [OF that] by (simp add: is_union_of_sources_def)
  have reached: "\<exists>out. cache (run lib s acts) m = Some out \<and>
         build_points_for_map lib game_data (detect_data_format game_data) m = Inr out \<and>
         is_union_of_sources out"
    if init: "overlay_init lib W H game_data file = Inr s" and m: "m \<in> set MAPS" for s acts m
  proof -
    from rebuild_all_caches_entries [OF overlay_init_cache [OF init]] m
    obtain out where "cache s m = Some out"
      "build_points_for_map lib game_data (detect_data_format game_data) m = Inr out"
      by blast
    then show ?thesis using build by (simp add: run_cache)
  qed
  show ?thesis using build reached by blast
qed

theorem possible_xp_is_union_witness:
  "\<exists>out. build_points_for_map ex_lib ex_game_data ''named'' ''DeSalle'' = Inr out \<and>
     is_union_of_sources out \<and>
     map pt_src (get_points out ''possible_xp'') = [''towers'', ''towers'', ''big_towers'', ''armories''] \<and>
     map pt_x (get_points out ''possible_xp'') = [100, 300, 1, 7]"
proof -
  from ex_build obtain out where
    all: "build_points_for_map ex_lib ex_game_data ''named'' ''DeSalle'' = Inr out \<and>
      map pt_src (get_points out ''possible_xp'') = [''towers'', ''towers'', ''big_towers'', ''armories''] \<and>
      map pt_x (get_points out ''possible_xp'') = [100, 300, 1, 7]" ..
  then have out: "build_points_for_map ex_lib ex_game_data ''named'' ''DeSalle'' = Inr out" ..
  have "is_union_of_sources out"
    by (rule possible_xp_is_union [of ex_lib ex_game_data "''named''" "''DeSalle''",
          THEN conjunct1, THEN spec, THEN mp, OF out])
  with all show ?thesis by (intro exI [of _ out]) (elim conjE, intro conjI)
qed

subsection \<open>IdentityResolver\<close>

lemma py_round_cases:
  fixes r :: real
  defines "f \<equiv> \<lfloor>r\<rfloor>"
  shows "real_of_int f \<le> r \<and> r < real_of_int f + 1 \<and>
         ((r - real_of_int f < 1 / 2 \<and> py_round r = f) \<or>
          (1 / 2 < r - real_of_int f \<and> py_round r = f + 1) \<or>
          (r - real_of_int f = 1 / 2 \<and> (py_round r = f \<or> py_round r = f + 1)))"
proof -
  have "real_of_int f \<le> r" "r < real_of_int f + 1" unfolding f_def by linarith+
  moreover have "(r - real_of_int f < 1 / 2 \<and> py_round r = f) \<or>
          (1 / 2 < r - real_of_int f \<and> py_round r = f + 1) \<or>
          (r - real_of_int f = 1 / 2 \<and> (py_round r = f \<or> py_round r = f + 1))"
    unfolding f_def py_round_def Let_def by (cases "r - real_of_int \<lfloor>r\<rfloor> < 1 / 2") auto
  ultimately show ?thesis by blast
qed

lemma py_round_half: "\<bar>r - real_of_int (py_round r)\<bar> \<le> 1 / 2"
proof -
  define f where "f = \<lfloor>r\<rfloor>"
  show ?thesis
    using py_round_cases [of r] unfolding f_def [symmetric]
    by (elim disjE conjE; simp add: abs_if; linarith)
qed

lemma py_round_nearest: "\<bar>r - real_of_int (py_round r)\<bar> \<le> \<bar>r - real_of_int n\<bar>"
proof -
  define f where "f = \<lfloor>r\<rfloor>"
  have "n \<le> f \<or> f + 1 \<le> n" by linarith
  then have "real_of_int n \<le> real_of_int f \<or> real_of_int f + 1 \<le> real_of_int n"
    by (metis of_int_le_iff of_int_add of_int_1)
  then show ?thesis
    using py_round_cases [of r] unfolding f_def [symmetric]
    by (elim disjE conjE; simp add: abs_if; linarith)
qed

lemma py_round_tie_even: "r - real_of_int \<lfloor>r\<rfloor> = 1 / 2 \<Longrightarrow> even (py_round r)"
  by (simp add: py_round_def Let_def)

lemma py_round_of_int: "py_round (real_of_int n) = n"
  by (simp add: py_round_def Let_def)

text \<open>
  Claim C4. The identity is a function of the category and the point: \<open>x:y\<close> outside
  \<^verbatim>\<open>possible_xp\<close> and \<open>src:x:y\<close> for \<^verbatim>\<open>possible_xp\<close>, where \<open>x\<close> and \<open>y\<close> are the decimal
  forms of the coordinates rounded to a nearest integer. It does not depend on \<open>u\<close>, \<open>v\<close> or
  the raw item, and two points with the same source whose coordinates round to the same
  integers have the same identity.
\<close>

theorem hidden_key_identity:
  "(tkey \<noteq> ''possible_xp'' \<longrightarrow>
      hidden_key tkey pt = str_int (py_round (pt_x pt)) @ '':'' @ str_int (py_round (pt_y pt))) \<and>
   hidden_key ''possible_xp'' pt =
      pt_src pt @ '':'' @ str_int (py_round (pt_x pt)) @ '':'' @ str_int (py_round (pt_y pt)) \<and>
   (\<forall>n. \<bar>pt_x pt - real_of_int (py_round (pt_x pt))\<bar> \<le> \<bar>pt_x pt - real_of_int n\<bar>) \<and>
   (\<forall>n. \<bar>pt_y pt - real_of_int (py_round (pt_y pt))\<bar> \<le> \<bar>pt_y pt - real_of_int n\<bar>) \<and>
   hidden_key tkey (pt\<lparr>pt_u := u', pt_v := v', pt_raw := raw'\<rparr>) = hidden_key tkey pt \<and>
   (py_round (pt_x q) = py_round (pt_x pt) \<and> py_round (pt_y q) = py_round (pt_y pt) \<and>
    pt_src q = pt_src pt \<longrightarrow> hidden_key tkey q = hidden_key tkey pt)"
  by (simp add: hidden_key_def Let_def py_round_nearest)

lemma ex_round: "py_round (501 / 5) = 100" "py_round (1997 / 10) = 200"
  "py_round (499 / 5) = 100" "py_round (1001 / 5) = 200"
  by (simp_all add: py_round_def Let_def)

lemma ex_str_int: "str_int 100 = ''100''" "str_int 200 = ''200''"
  by (simp_all add: str_int_def digit_char_def)

theorem hidden_key_identity_witness:
  "hidden_key ''towers'' (ex_pt 0 0 (501 / 5) (1997 / 10) ''towers'') = ''100:200'' \<and>
   hidden_key ''possible_xp'' (ex_pt 0 0 (501 / 5) (1997 / 10) ''towers'') = ''towers:100:200'' \<and>
   hidden_key ''towers'' (ex_pt 1 1 (499 / 5) (1001 / 5) ''towers'') =
     hidden_key ''towers'' (ex_pt 0 0 (501 / 5) (1997 / 10) ''towers'')"
  using hidden_key_identity [where tkey = "''towers''"
      and pt = "ex_pt 0 0 (501 / 5) (1997 / 10) ''towers''" and u' = 0 and v' = 0 and raw' = JNull
      and q = "ex_pt 1 1 (499 / 5) (1001 / 5) ''towers''"]
  by (simp add: ex_pt_def ex_round ex_str_int)

subsection \<open>HiddenStateStore\<close>

lemma hide_hovered_sets:
  assumes "hover s = Some h"
  shows "hidden_sets (snd (hide_hovered s)) =
     (hidden_sets s)(hv_type h \<mapsto>
        insert (JStr (hidden_key (hv_type h) (hv_pt_ref h))) (get_hidden (hidden_sets s) (hv_type h)))"
  using assms by (simp add: hide_hovered_def Let_def split: option.splits)

text \<open>
  Claim C5. Hiding the hovered point inserts its identity into the hidden set of the hovered
  category and leaves the hidden set of every other category as it was; with no hover result
  it changes no hidden set. So a hide under
  \<^verbatim>\<open>possible_xp\<close> changes the hidden test of no point under any other category, and a hide
  under another category changes the hidden test of no point under \<^verbatim>\<open>possible_xp\<close>.
\<close>

theorem hide_hovered_only_its_category:
  "(hover s = None \<longrightarrow> hidden_sets (snd (hide_hovered s)) = hidden_sets s) \<and>
   (\<forall>h. hover s = Some h \<longrightarrow>
      get_hidden (hidden_sets (snd (hide_hovered s))) (hv_type h) =
        insert (JStr (hidden_key (hv_type h) (hv_pt_ref h))) (get_hidden (hidden_sets s) (hv_type h)) \<and>
      is_hidden (hidden_sets (snd (hide_hovered s))) (hv_type h) (hv_pt_ref h) \<and>
      (\<forall>t q. t \<noteq> hv_type h \<longrightarrow>
         is_hidden (hidden_sets (snd (hide_hovered s))) t q = is_hidden (hidden_sets s) t q) \<and>
      (hv_type h = ''possible_xp'' \<longrightarrow>
         (\<forall>q. pt_src q \<noteq> ''possible_xp'' \<longrightarrow>
            is_hidden (hidden_sets (snd (hide_hovered s))) (pt_src q) q =
            is_hidden (hidden_sets s) (pt_src q) q)) \<and>
      (hv_type h \<noteq> ''possible_xp'' \<longrightarrow>
         (\<forall>q. is_hidden (hidden_sets (snd (hide_hovered s))) ''possible_xp'' q =
                is_hidden (hidden_sets s) ''possible_xp'' q)))"
proof -
  have none: "hidden_sets (snd (hide_hovered s)) = hidden_sets s" if "hover s = None"
    using that by (simp add: hide_hovered_def Let_def)
  have some: "get_hidden (hidden_sets (snd (hide_hovered s))) (hv_type h) =
        insert (JStr (hidden_key (hv_type h) (hv_pt_ref h))) (get_hidden (hidden_sets s) (hv_type h)) \<and>
      is_hidden (hidden_sets (snd (hide_hovered s))) (hv_type h) (hv_pt_ref h) \<and>
      (\<forall>t q. t \<noteq> hv_type h \<longrightarrow>
         is_hidden (hidden_sets (snd (hide_hovered s))) t q = is_hidden (hidden_sets s) t q) \<and>
      (hv_type h = ''possible_xp'' \<longrightarrow>
         (\<forall>q. pt_src q \<noteq> ''possible_xp'' \<longrightarrow>
            is_hidden (hidden_sets (snd (hide_hovered s))) (pt_src q) q =
            is_hidden (hidden_sets s) (pt_src q) q)) \<and>
      (hv_type h \<noteq> ''possible_xp'' \<longrightarrow>
         (\<forall>q. is_hidden (hidden_sets (snd (hide_hovered s))) ''possible_xp'' q =
                is_hidden (hidden_sets s) ''possible_xp'' q))"
    if "hover s = Some h" for h
    by (auto simp: hide_hovered_sets [OF that] is_hidden_def get_hidden_def)
  from none some show ?thesis by blast
qed

lemma ex_hide_key:
  "hidden_key ''possible_xp'' (ex_pt (1 / 2) (1 / 2) 100 200 ''towers'') = ''towers:100:200''"
  by (simp add: hidden_key_def ex_pt_def py_round_def str_int_def digit_char_def Let_def)

theorem hide_hovered_only_its_category_witness:
  "get_hidden (hidden_sets (snd (hide_hovered ex_hide_state))) ''possible_xp'' = {JStr ''towers:100:200''} \<and>
   is_hidden (hidden_sets (snd (hide_hovered ex_hide_state))) ''possible_xp''
     (ex_pt (1 / 2) (1 / 2) 100 200 ''towers'') \<and>
   \<not> is_hidden (hidden_sets (snd (hide_hovered ex_hide_state))) ''towers''
     (ex_pt (1 / 2) (1 / 2) 100 200 ''towers'')"
proof -
  let ?h = "\<lparr>hv_map = ''DeSalle'', hv_type = ''possible_xp'', hv_index = 0,
              hv_pt_ref = ex_pt (1 / 2) (1 / 2) 100 200 ''towers''\<rparr>"
  have h: "hover ex_hide_state = Some ?h" by (simp add: ex_hide_state_def)
  have before: "hidden_sets ex_hide_state = Map.empty" by (simp add: ex_hide_state_def)
  note T = hide_hovered_only_its_category [of ex_hide_state, THEN conjunct2, THEN spec, THEN mp, OF h]
  have 1: "get_hidden (hidden_sets (snd (hide_hovered ex_hide_state))) ''possible_xp'' = {JStr ''towers:100:200''}"
    using T [THEN conjunct1] by (simp add: ex_hide_key before get_hidden_def)
  have 2: "is_hidden (hidden_sets (snd (hide_hovered ex_hide_state))) ''possible_xp''
     (ex_pt (1 / 2) (1 / 2) 100 200 ''towers'')"
    using T [THEN conjunct2, THEN conjunct1] by simp
  have "is_hidden (hidden_sets (snd (hide_hovered ex_hide_state))) ''towers''
     (ex_pt (1 / 2) (1 / 2) 100 200 ''towers'') =
     is_hidden (hidden_sets ex_hide_state) ''towers'' (ex_pt (1 / 2) (1 / 2) 100 200 ''towers'')"
    using T [THEN conjunct2, THEN conjunct2, THEN conjunct1] by simp
  then have 3: "\<not> is_hidden (hidden_sets (snd (hide_hovered ex_hide_state))) ''towers''
     (ex_pt (1 / 2) (1 / 2) 100 200 ''towers'')"
    by (simp add: before is_hidden_def get_hidden_def)
  from 1 2 3 show ?thesis by (intro conjI)
qed

subsection \<open>InputEdgeDetector\<close>

lemma apply_rect_shape: "apply_rect lib W H s = Inr s' \<Longrightarrow> \<exists>ro. s' = s\<lparr>rect := ro\<rparr>"
  unfolding apply_rect_def
  by (auto split: option.splits json.splits sum.splits)

lemma switch_shape: "\<exists>p ro. snd (switch lib W H name s) = s\<lparr>prof := p, rect := ro\<rparr>"
proof (cases "name \<in> set MAPS \<and> name \<noteq> prof s")
  case False
  then have "switch lib W H name s = (None, s)"
    unfolding switch_def by (rule if_not_P)
  then have "snd (switch lib W H name s) = s\<lparr>prof := prof s, rect := rect s\<rparr>"
    by simp
  then show ?thesis by blast
next
  case True
  show ?thesis
  proof (cases "apply_rect lib W H (s\<lparr>prof := name\<rparr>)")
    case (Inl e)
    with True have "snd (switch lib W H name s) = s\<lparr>prof := name, rect := rect s\<rparr>"
      by (simp add: switch_def Let_def)
    then show ?thesis by blast
  next
    case (Inr s')
    from apply_rect_shape [OF Inr] obtain ro where "s' = s\<lparr>prof := name, rect := ro\<rparr>" by auto
    with True Inr have "snd (switch lib W H name s) = s\<lparr>prof := name, rect := ro\<rparr>"
      by (simp add: switch_def Let_def)
    then show ?thesis by blast
  qed
qed

lemma tick_switch_shape: "\<exists>p ro. snd (tick_switch lib k s) = s\<lparr>prof := p, rect := ro\<rparr>"
proof -
  have same: "\<exists>p ro. s = s\<lparr>prof := p, rect := ro\<rparr>"
    by (rule exI [of _ "prof s"], rule exI [of _ "rect s"]) simp
  show ?thesis
    unfolding tick_switch_def using switch_shape same by auto
qed

lemma update_hover_shape: "\<exists>h. update_hover k s = s\<lparr>hover := h\<rparr>"
  by (auto simp: update_hover_def Let_def split: option.splits)

text \<open>
  What each part of a tick does to master, to the four previous samples, to the count of
  hide calls and to the hidden sets.
\<close>

lemma tick_master_fields:
  "master (snd (tick_master k s)) = (if key_bt k \<and> \<not> pbt s then \<not> master s else master s) \<and>
   pH (snd (tick_master k s)) = pH s \<and> pT (snd (tick_master k s)) = pT s \<and>
   pHide (snd (tick_master k s)) = pHide s \<and> hide_calls (snd (tick_master k s)) = hide_calls s \<and>
   hidden_sets (snd (tick_master k s)) = hidden_sets s \<and>
   (fst (tick_master k s) = None \<longrightarrow> pbt (snd (tick_master k s)) = key_bt k) \<and>
   (fst (tick_master k s) = None \<or> sort_error (hidden_sets s) = Some TypeError)"
  by (auto simp: tick_master_def Let_def save_def sort_error_def split: option.splits if_splits)

lemma tick_h_fields:
  "master (snd (tick_h k s)) = master s \<and> pbt (snd (tick_h k s)) = pbt s \<and>
   pT (snd (tick_h k s)) = pT s \<and> pHide (snd (tick_h k s)) = pHide s \<and>
   hide_calls (snd (tick_h k s)) = hide_calls s \<and> hidden_sets (snd (tick_h k s)) = hidden_sets s \<and>
   (fst (tick_h k s) = None \<longrightarrow> pH (snd (tick_h k s)) = key_h k) \<and>
   (fst (tick_h k s) = None \<or> sort_error (hidden_sets s) = Some TypeError)"
  by (auto simp: tick_h_def Let_def save_def sort_error_def split: option.splits if_splits)

lemma tick_tab_fields:
  "master (snd (tick_tab k s)) = master s \<and> pbt (snd (tick_tab k s)) = pbt s \<and>
   pH (snd (tick_tab k s)) = pH s \<and> pHide (snd (tick_tab k s)) = pHide s \<and>
   hide_calls (snd (tick_tab k s)) = hide_calls s \<and> hidden_sets (snd (tick_tab k s)) = hidden_sets s \<and>
   (fst (tick_tab k s) = None \<longrightarrow> pT (snd (tick_tab k s)) = key_tab k) \<and>
   (fst (tick_tab k s) = None \<or> sort_error (hidden_sets s) = Some TypeError)"
  by (auto simp: tick_tab_def Let_def save_def sort_error_def split: option.splits if_splits)

lemma tick_switch_fields:
  "master (snd (tick_switch lib k s)) = master s \<and> pbt (snd (tick_switch lib k s)) = pbt s \<and>
   pH (snd (tick_switch lib k s)) = pH s \<and> pT (snd (tick_switch lib k s)) = pT s \<and>
   pHide (snd (tick_switch lib k s)) = pHide s \<and>
   hide_calls (snd (tick_switch lib k s)) = hide_calls s \<and>
   hidden_sets (snd (tick_switch lib k s)) = hidden_sets s"
proof -
  from tick_switch_shape [of lib k s] obtain p ro where
    "snd (tick_switch lib k s) = s\<lparr>prof := p, rect := ro\<rparr>" by blast
  then show ?thesis by simp
qed

lemma hover_stage_fields:
  fixes k s
  defines "s' \<equiv> (if visible s then update_hover k s else s)"
  shows "master s' = master s \<and> pbt s' = pbt s \<and> pH s' = pH s \<and> pT s' = pT s \<and>
         pHide s' = pHide s \<and> hide_calls s' = hide_calls s \<and> hidden_sets s' = hidden_sets s"
proof -
  from update_hover_shape [of k s] obtain h where "update_hover k s = s\<lparr>hover := h\<rparr>" ..
  then show ?thesis by (simp add: s'_def)
qed

lemma hide_hovered_fields:
  "pbt (snd (hide_hovered s)) = pbt s \<and> pH (snd (hide_hovered s)) = pH s \<and>
   pT (snd (hide_hovered s)) = pT s \<and> pHide (snd (hide_hovered s)) = pHide s \<and>
   master (snd (hide_hovered s)) = master s \<and>
   hide_calls (snd (hide_hovered s)) = Suc (hide_calls s)"
  by (simp add: hide_hovered_def Let_def split: option.splits)

lemma tick_chord_fields:
  "master (snd (tick_chord k s)) = master s \<and> pbt (snd (tick_chord k s)) = pbt s \<and>
   pH (snd (tick_chord k s)) = pH s \<and> pT (snd (tick_chord k s)) = pT s \<and>
   (fst (tick_chord k s) = None \<longrightarrow>
      pHide (snd (tick_chord k s)) = chord k \<and>
      hide_calls (snd (tick_chord k s)) = hide_calls s + (if chord k \<and> \<not> pHide s then 1 else 0)) \<and>
   (fst (tick_chord k s) \<noteq> None \<longrightarrow> pHide (snd (tick_chord k s)) = pHide s)"
  by (simp add: tick_chord_def Let_def and_then_eq hide_hovered_fields)

text \<open>The stages of a tick, named, and the tick as the first stage that ends it.\<close>

lemma tick_stages:
  fixes lib k s
  defines "r1 \<equiv> tick_master k s"
  defines "r2 \<equiv> tick_h k (snd r1)"
  defines "r3 \<equiv> tick_tab k (snd r2)"
  defines "r4 \<equiv> tick_switch lib k (snd r3)"
  defines "r6 \<equiv> tick_chord k (if visible (snd r4) then update_hover k (snd r4) else snd r4)"
  shows "tick lib k s =
     (if fst r1 \<noteq> None then r1
      else if fst r2 \<noteq> None then r2
      else if \<not> master (snd r2) then (None, snd r2)
      else if fst r3 \<noteq> None then r3
      else if fst r4 \<noteq> None then r4
      else r6)"
  unfolding tick_def and_then_eq r1_def r2_def r3_def r4_def r6_def by simp

text \<open>What one tick does to the four previous-sample booleans and to the count of hide calls.\<close>

lemma tick_samples:
  "master (snd (tick lib k s)) = (if key_bt k \<and> \<not> pbt s then \<not> master s else master s) \<and>
   (fst (tick lib k s) = None \<longrightarrow>
      pbt (snd (tick lib k s)) = key_bt k \<and> pH (snd (tick lib k s)) = key_h k) \<and>
   (\<not> master (snd (tick lib k s)) \<longrightarrow>
      pT (snd (tick lib k s)) = pT s \<and> pHide (snd (tick lib k s)) = pHide s \<and>
      hide_calls (snd (tick lib k s)) = hide_calls s) \<and>
   (master (snd (tick lib k s)) \<and> fst (tick lib k s) = None \<longrightarrow>
      pT (snd (tick lib k s)) = key_tab k \<and> pHide (snd (tick lib k s)) = chord k \<and>
      hide_calls (snd (tick lib k s)) = hide_calls s + (if chord k \<and> \<not> pHide s then 1 else 0)) \<and>
   (fst (tick lib k s) \<noteq> None \<longrightarrow> pHide (snd (tick lib k s)) = pHide s) \<and>
   (sort_error (hidden_sets s) = None \<longrightarrow>
      pbt (snd (tick lib k s)) = key_bt k \<and> pH (snd (tick lib k s)) = key_h k \<and>
      (master (snd (tick lib k s)) \<longrightarrow> pT (snd (tick lib k s)) = key_tab k))"
proof -
  define r1 where "r1 = tick_master k s"
  define r2 where "r2 = tick_h k (snd r1)"
  define r3 where "r3 = tick_tab k (snd r2)"
  define r4 where "r4 = tick_switch lib k (snd r3)"
  define s5 where "s5 = (if visible (snd r4) then update_hover k (snd r4) else snd r4)"
  define r6 where "r6 = tick_chord k s5"
  note f1 = tick_master_fields [of k s, folded r1_def]
  note f2 = tick_h_fields [of k "snd r1", folded r2_def]
  note f3 = tick_tab_fields [of k "snd r2", folded r3_def]
  note f4 = tick_switch_fields [of lib k "snd r3", folded r4_def]
  note f5 = hover_stage_fields [of "snd r4" k, folded s5_def]
  note f6 = tick_chord_fields [of k s5, folded r6_def]
  have t: "tick lib k s =
     (if fst r1 \<noteq> None then r1
      else if fst r2 \<noteq> None then r2
      else if \<not> master (snd r2) then (None, snd r2)
      else if fst r3 \<noteq> None then r3
      else if fst r4 \<noteq> None then r4
      else r6)"
    unfolding r1_def r2_def r3_def r4_def r6_def s5_def by (rule tick_stages)
  consider (a) e where "fst r1 = Some e"
    | (b) e where "fst r1 = None" "fst r2 = Some e"
    | (c) "fst r1 = None" "fst r2 = None" "\<not> master (snd r2)"
    | (d) e where "fst r1 = None" "fst r2 = None" "master (snd r2)" "fst r3 = Some e"
    | (e) e where "fst r1 = None" "fst r2 = None" "master (snd r2)" "fst r3 = None" "fst r4 = Some e"
    | (f) "fst r1 = None" "fst r2 = None" "master (snd r2)" "fst r3 = None" "fst r4 = None"
    by (cases "fst r1"; cases "fst r2"; cases "fst r3"; cases "fst r4") auto
  then show ?thesis
  proof cases
    case a
    then have "tick lib k s = r1" by (simp add: t)
    with a f1 show ?thesis by simp
  next
    case b
    then have "tick lib k s = r2" by (simp add: t)
    with b f1 f2 show ?thesis by simp
  next
    case c
    then have "tick lib k s = (None, snd r2)" by (simp add: t)
    with c f1 f2 show ?thesis by simp
  next
    case d
    then have "tick lib k s = r3" by (simp add: t)
    with d f1 f2 f3 show ?thesis by simp
  next
    case e
    then have "tick lib k s = r4" by (simp add: t)
    with e f1 f2 f3 f4 show ?thesis by simp
  next
    case f
    then have "tick lib k s = r6" by (simp add: t)
    with f f1 f2 f3 f4 f5 f6 show ?thesis by simp
  qed
qed

lemma strings_only_sort_error: "strings_only hs \<Longrightarrow> sort_error hs = None"
proof -
  assume so: "strings_only hs"
  have "sortable (get_hidden hs k)" if "k \<in> set type_order" for k
  proof -
    from so that have str: "\<forall>x\<in>get_hidden hs k. is_str x" by (simp add: strings_only_def)
    have "\<not> is_str x \<or> \<not> is_num x" for x by (cases x) simp_all
    moreover have "\<not> is_str JNull" by simp
    ultimately show ?thesis using str unfolding sortable_def by blast
  qed
  then show ?thesis by (simp add: sort_error_def)
qed

lemma hide_hovered_strings_only:
  assumes "strings_only (hidden_sets s)"
  shows "fst (hide_hovered s) = None \<and> strings_only (hidden_sets (snd (hide_hovered s)))"
proof (cases "hover s")
  case None
  with assms show ?thesis by (simp add: hide_hovered_def Let_def)
next
  case (Some h)
  let ?hs = "(hidden_sets s)(hv_type h \<mapsto>
     insert (JStr (hidden_key (hv_type h) (hv_pt_ref h))) (get_hidden (hidden_sets s) (hv_type h)))"
  have so: "strings_only ?hs"
    using assms by (auto simp: strings_only_def get_hidden_def)
  then have "sort_error ?hs = None" by (rule strings_only_sort_error)
  with Some so show ?thesis by (simp add: hide_hovered_def Let_def save_def)
qed

lemma tick_chord_strings_only:
  assumes "strings_only (hidden_sets s)"
  shows "fst (tick_chord k s) = None \<and> strings_only (hidden_sets (snd (tick_chord k s)))"
  using assms hide_hovered_strings_only [OF assms]
  by (simp add: tick_chord_def Let_def and_then_eq)

lemma tick_completes:
  assumes "master s" "strings_only (hidden_sets s)"
    "\<not> key_bt k" "\<not> key_1 k" "\<not> key_2 k" "\<not> key_3 k" "\<not> key_4 k"
  shows "fst (tick lib k s) = None \<and> master (tick_safe lib k s) \<and>
         strings_only (hidden_sets (tick_safe lib k s))"
proof -
  define r1 where "r1 = tick_master k s"
  define r2 where "r2 = tick_h k (snd r1)"
  define r3 where "r3 = tick_tab k (snd r2)"
  define r4 where "r4 = tick_switch lib k (snd r3)"
  define s5 where "s5 = (if visible (snd r4) then update_hover k (snd r4) else snd r4)"
  define r6 where "r6 = tick_chord k s5"
  note f1 = tick_master_fields [of k s, folded r1_def]
  note f2 = tick_h_fields [of k "snd r1", folded r2_def]
  note f3 = tick_tab_fields [of k "snd r2", folded r3_def]
  note f4 = tick_switch_fields [of lib k "snd r3", folded r4_def]
  note f5 = hover_stage_fields [of "snd r4" k, folded s5_def]
  note f6 = tick_chord_fields [of k s5, folded r6_def]
  have t: "tick lib k s =
     (if fst r1 \<noteq> None then r1
      else if fst r2 \<noteq> None then r2
      else if \<not> master (snd r2) then (None, snd r2)
      else if fst r3 \<noteq> None then r3
      else if fst r4 \<noteq> None then r4
      else r6)"
    unfolding r1_def r2_def r3_def r4_def r6_def s5_def by (rule tick_stages)
  have ok: "sort_error (hidden_sets s) = None" using assms(2) by (rule strings_only_sort_error)
  have e1: "fst r1 = None" using f1 ok by simp
  have e2: "fst r2 = None" using f1 f2 ok by simp
  have m2: "master (snd r2)" using f1 f2 assms(1,3) by simp
  have e3: "fst r3 = None" using f1 f2 f3 ok by simp
  have "tick_switch lib k (snd r3) = (None, snd r3)"
    using assms(4-7) by (simp add: tick_switch_def)
  then have e4: "fst r4 = None" and s4: "snd r4 = snd r3" by (simp_all add: r4_def)
  have hs5: "hidden_sets s5 = hidden_sets s" using f1 f2 f3 f4 f5 by simp
  with assms(2) have "strings_only (hidden_sets s5)" by simp
  from tick_chord_strings_only [OF this, of k]
  have e6: "fst r6 = None" "strings_only (hidden_sets (snd r6))" by (simp_all add: r6_def)
  have m6: "master (snd r6)" using f3 f4 f5 f6 m2 by simp
  have "tick lib k s = r6" using e1 e2 m2 e3 e4 by (simp add: t)
  with e6 m6 show ?thesis by (simp add: tick_safe_def)
qed





lemma ex_started_off_state:
  "\<exists>s. ex_started_off = Inr s \<and> \<not> master s \<and> \<not> pT s \<and> \<not> pHide s \<and> \<not> pbt s"
  by (simp add: ex_started_off_def init_defs ex_game_data_def ex_item_def ex_lib_def)



lemma ex_hover_state_strings: "strings_only (hidden_sets ex_hover_state)"
  by (simp add: strings_only_def ex_hover_state_def get_hidden_def)


text \<open>
  Claim C7 as stated fails: on a tick with master off, Tab and the chord held, the previous
  samples of the visible toggle and of the chord stay \<open>False\<close>.
\<close>

theorem previous_samples_counterexample:
  "\<not> isl ex_started_off \<and> key_tab ex_tab_chord_in \<and> chord ex_tab_chord_in \<and>
   fst (tick ex_lib ex_tab_chord_in (projr ex_started_off)) = None \<and>
   \<not> pT (tick_safe ex_lib ex_tab_chord_in (projr ex_started_off)) \<and>
   \<not> pHide (tick_safe ex_lib ex_tab_chord_in (projr ex_started_off))"
proof -
  from ex_started_off_state obtain s where
    s: "ex_started_off = Inr s" "\<not> master s" "\<not> pT s" "\<not> pHide s" "\<not> pbt s" by blast
  have k: "\<not> key_bt ex_tab_chord_in" "\<not> key_h ex_tab_chord_in" "key_tab ex_tab_chord_in"
    "chord ex_tab_chord_in"
    by (simp_all add: chord_def ex_tab_chord_in_def ex_chord_in_def ex_in_def)
  from s(2) k(1) tick_samples [of ex_lib ex_tab_chord_in s]
  have off: "\<not> master (snd (tick ex_lib ex_tab_chord_in s))" by simp
  with tick_samples [of ex_lib ex_tab_chord_in s] s(3,4)
  have "\<not> pT (tick_safe ex_lib ex_tab_chord_in s)" "\<not> pHide (tick_safe ex_lib ex_tab_chord_in s)"
    by (simp_all add: tick_safe_def)
  moreover have "fst (tick ex_lib ex_tab_chord_in s) = None"
    using s(2) k(1,2) by (simp add: tick_def tick_master_def tick_h_def and_then_eq Let_def)
  moreover have "projr ex_started_off = s" "\<not> isl ex_started_off" by (simp_all add: s(1))
  ultimately show ?thesis using k by (simp only: simp_thms)
qed

text \<open>
  Claim C7, amended. On every tick that no exception ends, the previous samples of the master
  toggle and of hide-now are set to the keys sampled in the tick, whether or not the binding
  fired and whatever master and visible are; the previous samples of the visible toggle and
  of the chord are set to the sampled state when master is on after the master toggle, again
  whether or not the binding fired, and keep their old values when master is off after it.
  When the hidden sets can be sorted, so that saving raises nothing, the first two samples
  are set on every tick and the sample of the visible toggle on every tick with master on,
  also where the tick is ended by an exception later.
\<close>

theorem previous_samples_updated:
  "master (tick_safe lib k s) = (if key_bt k \<and> \<not> pbt s then \<not> master s else master s) \<and>
   (fst (tick lib k s) = None \<longrightarrow>
      pbt (tick_safe lib k s) = key_bt k \<and> pH (tick_safe lib k s) = key_h k \<and>
      (master (tick_safe lib k s) \<longrightarrow>
         pT (tick_safe lib k s) = key_tab k \<and> pHide (tick_safe lib k s) = chord k)) \<and>
   (\<not> master (tick_safe lib k s) \<longrightarrow>
      pT (tick_safe lib k s) = pT s \<and> pHide (tick_safe lib k s) = pHide s) \<and>
   (sort_error (hidden_sets s) = None \<longrightarrow>
      pbt (tick_safe lib k s) = key_bt k \<and> pH (tick_safe lib k s) = key_h k \<and>
      (master (tick_safe lib k s) \<longrightarrow> pT (tick_safe lib k s) = key_tab k))"
  using tick_samples [of lib k s] unfolding tick_safe_def by blast

theorem previous_samples_updated_witness:
  "master (tick_safe ex_lib ex_tab_chord_in ex_hover_state) \<and>
   pbt (tick_safe ex_lib ex_tab_chord_in ex_hover_state) = False \<and>
   pH (tick_safe ex_lib ex_tab_chord_in ex_hover_state) = False \<and>
   pT (tick_safe ex_lib ex_tab_chord_in ex_hover_state) = True \<and>
   pHide (tick_safe ex_lib ex_tab_chord_in ex_hover_state) = True"
proof -
  have k: "key_bt ex_tab_chord_in = False" "key_h ex_tab_chord_in = False"
    "key_tab ex_tab_chord_in = True" "chord ex_tab_chord_in = True"
    "\<not> key_1 ex_tab_chord_in" "\<not> key_2 ex_tab_chord_in" "\<not> key_3 ex_tab_chord_in"
    "\<not> key_4 ex_tab_chord_in"
    by (simp_all add: chord_def ex_tab_chord_in_def ex_chord_in_def ex_in_def)
  have m: "master ex_hover_state" by (simp add: ex_hover_state_def)
  from tick_completes [OF m ex_hover_state_strings _ k(5-8), of ex_lib] k(1)
  have c: "fst (tick ex_lib ex_tab_chord_in ex_hover_state) = None"
    "master (tick_safe ex_lib ex_tab_chord_in ex_hover_state)"
    by simp_all
  from previous_samples_updated [of ex_lib ex_tab_chord_in ex_hover_state] c show ?thesis
    unfolding k by blast
qed

subsection \<open>The global scale\<close>









subsection \<open>Start-up\<close>

text \<open>
  Claim C10. A dataset that is the empty list, or no list at all, is classified as
  \<^verbatim>\<open>unknown\<close>, and start-up then ends with the error of an unrecognized format whatever the
  configuration file, the screen and the style data are: no state is built.
\<close>

theorem empty_or_non_list_is_fatal:
  assumes "game_data = JList [] \<or> (\<forall>l. game_data \<noteq> JList l)"
  shows "detect_data_format game_data = ''unknown'' \<and>
         (\<forall>lib W H file.
            overlay_init lib W H game_data file = Inl (RuntimeError ''Unrecognized data.json format''))"
proof -
  from assms have "detect_data_format game_data = ''unknown''"
    by (auto simp: detect_data_format_def split: json.splits list.splits)
  then show ?thesis by (simp add: overlay_init_def)
qed

theorem empty_or_non_list_is_fatal_witness:
  "detect_data_format (JList []) = ''unknown'' \<and>
   overlay_init ex_lib 2560 1440 (JList []) None = Inl (RuntimeError ''Unrecognized data.json format'') \<and>
   detect_data_format (JDict [(''n'', JStr ''DeSalle'')]) = ''unknown'' \<and>
   overlay_init ex_lib 2560 1440 (JDict [(''n'', JStr ''DeSalle'')]) None =
     Inl (RuntimeError ''Unrecognized data.json format'')"
  using empty_or_non_list_is_fatal [of "JList []"]
    empty_or_non_list_is_fatal [of "JDict [(''n'', JStr ''DeSalle'')]"]
  by simp

subsection \<open>ConfigStore\<close>




















end
